theory Spec2Isabelle
  imports Complex_Main
begin

section \<open>Data model of the stochastic SEATIRD simulation\<close>

text \<open>
  The embedding follows \<^verbatim>\<open>src/models/disease/StochasticSEATIRD.cpp\<close>. Members of the
  C++ class are written without their trailing underscore (\<^verbatim>\<open>time_\<close> is \<open>time\<close>,
  \<^verbatim>\<open>variables_\<close> is \<open>variables\<close>). Numbers of the types \<^verbatim>\<open>float\<close> and
  \<^verbatim>\<open>double\<close> are real numbers. Where the program rounds a result before it casts it to
  \<^verbatim>\<open>int\<close>, in the amounts of antivirals and vaccines, the rounding of the two formats is
  part of the model. The population store holds counts of individuals: whole numbers
  below \<open>2\<^sup>2\<^sup>4\<close>, whose sums and differences the format \<^verbatim>\<open>float\<close> represents exactly,
  so the updates of the store are written without rounding. Probabilities and event
  times are ideal real numbers.
\<close>

definition numAgeGroups :: nat where "numAgeGroups = 5"
definition numRiskGroups :: nat where "numRiskGroups = 2"
definition numVaccinatedGroups :: nat where "numVaccinatedGroups = 2"

text \<open>Modelled from the spec: the wildcard \<^verbatim>\<open>STRATIFICATIONS_ALL\<close> is declared in a header
  that is not part of the sources at hand; it is a value that is no valid index.\<close>

definition STRATIFICATIONS_ALL :: int where "STRATIFICATIONS_ALL = - 1"

text \<open>The cast of a floating point value to \<^verbatim>\<open>int\<close>: it truncates towards zero. The
  program's cast is defined only for a value whose truncation is an \<^verbatim>\<open>int\<close>, which is what
  \<open>castable\<close> says.\<close>

definition toInt :: "real \<Rightarrow> int" where
  "toInt x = (if 0 \<le> x then \<lfloor>x\<rfloor> else \<lceil>x\<rceil>)"


text \<open>Rounding to a binary floating point format with \<open>prec\<close> significant bits, to the
  nearest representable number and, of two nearest, to the one with the even significand:
  the rounding of every arithmetic operation and conversion of the program. The formats
  \<^verbatim>\<open>double\<close> and \<^verbatim>\<open>float\<close> have 53 and 24 significant bits. The range of their exponents
  is not modelled.\<close>

definition roundEven :: "real \<Rightarrow> int" where
  "roundEven y =
     (let f = \<lfloor>y\<rfloor>
      in if y - real_of_int f < 1 / 2 then f
         else if 1 / 2 < y - real_of_int f then f + 1
         else if even f then f else f + 1)"

definition ulpExponent :: "nat \<Rightarrow> real \<Rightarrow> int" where
  "ulpExponent prec y = \<lfloor>log 2 \<bar>y\<bar>\<rfloor> - int prec + 1"

definition roundBinary :: "nat \<Rightarrow> real \<Rightarrow> real" where
  "roundBinary prec y =
     (if y = 0 then 0
      else real_of_int (roundEven (y / 2 powr real_of_int (ulpExponent prec y)))
             * 2 powr real_of_int (ulpExponent prec y))"

definition toDouble :: "real \<Rightarrow> real" where
  "toDouble = roundBinary 53"

definition toFloat :: "real \<Rightarrow> real" where
  "toFloat = roundBinary 24"

text \<open>The named variables of the population store (the keys of \<^verbatim>\<open>variables_\<close>).\<close>

datatype variable =
    Susceptible | Exposed | Asymptomatic | Treatable | Infectious | Recovered | Deceased
  | Population | Treated | TreatedDaily | TreatedIneffectiveDaily | VaccinatedDaily

text \<open>One array per variable, indexed by (time, node index, age, risk, vaccinated).\<close>

type_synonym varArray = "int \<Rightarrow> nat \<Rightarrow> nat \<Rightarrow> nat \<Rightarrow> nat \<Rightarrow> real"

datatype StochasticSEATIRDEventType =
  EtoA | AtoT | AtoR | AtoD | TtoI | TtoR | TtoD | ItoR | ItoD | CONTACT

record StochasticSEATIRDEvent =
  initializationTime :: real
  eventTime :: real
  eventType :: StochasticSEATIRDEventType
  fromStratificationValues :: "int list"
  toStratificationValues :: "int list"

datatype StochasticSEATIRDScheduleState = E | A | T | I | R | D

record StochasticSEATIRDSchedule =
  state :: StochasticSEATIRDScheduleState
  stratificationValues :: "int list"
  eventQueue :: "StochasticSEATIRDEvent list"
  canceled :: bool
  infectedTMin :: real
  infectedTMax :: real

datatype StockpileType = STOCKPILE_ANTIVIRALS | STOCKPILE_VACCINES

text \<open>A stockpile answers \<^verbatim>\<open>getNum(time, type)\<close>; \<^verbatim>\<open>setNum\<close> updates one entry.\<close>

type_synonym Stockpile = "int \<Rightarrow> StockpileType \<Rightarrow> int"

definition setNum :: "Stockpile \<Rightarrow> int \<Rightarrow> int \<Rightarrow> StockpileType \<Rightarrow> Stockpile" where
  "setNum sp t n ty = sp(t := (sp t)(ty := n))"

text \<open>A priority group selection: its groups, the full strata \<open>[a, r, v]\<close> it selects, and
  the (age, risk) pairs behind \<^verbatim>\<open>getStratificationValuesSet2\<close>.\<close>

record PriorityGroupSelections =
  priorityGroups :: "string list"
  stratificationValuesSet :: "int list list"
  ageRiskSet :: "(int \<times> int) list"

definition getStratificationValuesSet2 :: "PriorityGroupSelections \<Rightarrow> int \<Rightarrow> int list list" where
  "getStratificationValuesSet2 g x = map (\<lambda>(a, r). [a, r, x]) (ageRiskSet g)"

text \<open>The process-wide parameters object \<^verbatim>\<open>g_parameters\<close>.\<close>

record Parameters =
  R0 :: real
  betaScale :: real
  antiviralEffectiveness :: real
  antiviralAdherence :: real
  antiviralCapacity :: real
  vaccineEffectiveness :: real
  vaccineAdherence :: real
  vaccineCapacity :: real
  vaccineLatencyPeriod :: int
  antiviralPriorityGroupSelections :: "PriorityGroupSelections option"
  vaccinePriorityGroupSelections :: "PriorityGroupSelections option"

datatype logLevel = LOG_DEBUG | LOG_WARN | LOG_ERROR

text \<open>
  The simulation object. The two generators of the class are streams of uniform draws;
  the pairing heap of a node is the list of its schedules in iteration order.
\<close>

record sim =
  time :: int
  now :: real
  variables :: "variable \<Rightarrow> varArray"
  nodeIds :: "int list"
  nodeIdToIndex :: "int \<Rightarrow> nat"
  stratifications :: "string list list"
  stockpileNetwork :: "int \<Rightarrow> Stockpile option"
  scheduleEventQueues :: "int \<Rightarrow> StochasticSEATIRDSchedule list"
  rand :: "nat \<Rightarrow> real"
  randGenerator :: "nat \<Rightarrow> real"
  cachedTime :: int
  populationNodes :: "nat \<Rightarrow> real"
  populations :: "nat \<Rightarrow> nat \<Rightarrow> nat \<Rightarrow> nat \<Rightarrow> real"
  iliValues :: "real list list"
  flog :: "(logLevel \<times> string) list"

section \<open>The population store\<close>

text \<open>Sums over a whole array of strata (\<^verbatim>\<open>blitz::sum\<close>) and the update of one element.\<close>

definition sum3 :: "(nat \<Rightarrow> nat \<Rightarrow> nat \<Rightarrow> 'a::comm_monoid_add) \<Rightarrow> 'a" where
  "sum3 f = (\<Sum>a<numAgeGroups. \<Sum>r<numRiskGroups. \<Sum>v<numVaccinatedGroups. f a r v)"

definition upd3 :: "(nat \<Rightarrow> nat \<Rightarrow> nat \<Rightarrow> 'a) \<Rightarrow> nat \<Rightarrow> nat \<Rightarrow> nat \<Rightarrow> 'a \<Rightarrow> (nat \<Rightarrow> nat \<Rightarrow> nat \<Rightarrow> 'a)" where
  "upd3 f a r v y = (\<lambda>a' r' v'. if a' = a \<and> r' = r \<and> v' = v then y else f a' r' v')"


text \<open>Position \<open>i\<close> of a stratification vector selects index \<open>x\<close> when the vector is too
  short to have that position, holds the wildcard there, or holds \<open>x\<close>.\<close>

definition sel :: "int list \<Rightarrow> nat \<Rightarrow> nat \<Rightarrow> bool" where
  "sel sv i x = (length sv \<le> i \<or> sv ! i = STRATIFICATIONS_ALL \<or> sv ! i = int x)"

text \<open>Modelled from the spec: \<^verbatim>\<open>getValue\<close> of the base class \<^verbatim>\<open>EpidemicSimulation\<close>, which
  is not part of the sources at hand: the value of a variable at (time, node), summed
  across the wildcard dimensions of the stratification vector.\<close>

definition getValue :: "sim \<Rightarrow> variable \<Rightarrow> int \<Rightarrow> int \<Rightarrow> int list \<Rightarrow> real" where
  "getValue s var t nodeId sv =
     sum3 (\<lambda>a r v. if sel sv 0 a \<and> sel sv 1 r \<and> sel sv 2 v
                     then variables s var t (nodeIdToIndex s nodeId) a r v else 0)"

text \<open>Modelled from the spec: the overload of \<^verbatim>\<open>getValue\<close> that takes the strata of a
  priority group selection and sums over them.\<close>

definition getValueSet :: "sim \<Rightarrow> variable \<Rightarrow> int \<Rightarrow> int \<Rightarrow> int list list \<Rightarrow> real" where
  "getValueSet s var t nodeId svs = sum_list (map (getValue s var t nodeId) svs)"

section \<open>Derived variables\<close>

definition getDerivedVarInfected :: "sim \<Rightarrow> int \<Rightarrow> int \<Rightarrow> int list \<Rightarrow> real" where
  "getDerivedVarInfected s t nodeId sv =
     0 + getValue s Asymptomatic t nodeId sv + getValue s Treatable t nodeId sv
       + getValue s Infectious t nodeId sv"

text \<open>The loop \<^verbatim>\<open>for(int t=time; t>=0 && t>(time - vaccineLatencyPeriod); t--)\<close> with its
  accumulator; \<open>f t\<close> is the term added for day \<open>t\<close> and \<open>lo\<close> the excluded lower limit.\<close>

function latencyLoop :: "(int \<Rightarrow> 'a::comm_monoid_add) \<Rightarrow> int \<Rightarrow> int \<Rightarrow> 'a \<Rightarrow> 'a" where
  "latencyLoop f lo t acc =
     (if 0 \<le> t \<and> lo < t then latencyLoop f lo (t - 1) (acc + f t) else acc)"
  by pat_completeness auto
termination
  by (relation "measure (\<lambda>(f, lo, t, acc). nat (t + 1))") auto

declare latencyLoop.simps [simp del]

definition getDerivedVarPopulationInVaccineLatencyPeriod ::
  "Parameters \<Rightarrow> sim \<Rightarrow> int \<Rightarrow> int \<Rightarrow> int list \<Rightarrow> real" where
  "getDerivedVarPopulationInVaccineLatencyPeriod p s t nodeId sv =
     latencyLoop (\<lambda>d. getValue s VaccinatedDaily d nodeId sv) (t - vaccineLatencyPeriod p) t 0"

definition getDerivedVarPopulationEffectiveVaccines ::
  "Parameters \<Rightarrow> sim \<Rightarrow> int \<Rightarrow> int \<Rightarrow> int list \<Rightarrow> real" where
  "getDerivedVarPopulationEffectiveVaccines p s t nodeId sv =
     (if 3 \<le> length sv \<and> sv ! 2 \<noteq> 1 \<and> sv ! 2 \<noteq> STRATIFICATIONS_ALL then 0
      else
        let sv1 = (sv @ replicate (3 - length sv) STRATIFICATIONS_ALL)[2 := 1]
        in getValue s Population t nodeId sv1
             - getDerivedVarPopulationInVaccineLatencyPeriod p s t nodeId sv1)"

section \<open>Writes to the population store\<close>

text \<open>The update \<^verbatim>\<open>variables_[var](t, i, a, r, v) += x\<close> of one array element.\<close>

definition addTo ::
  "(variable \<Rightarrow> varArray) \<Rightarrow> variable \<Rightarrow> int \<Rightarrow> nat \<Rightarrow> nat \<Rightarrow> nat \<Rightarrow> nat \<Rightarrow> real
     \<Rightarrow> (variable \<Rightarrow> varArray)" where
  "addTo V var t i a r v x =
     (\<lambda>var' t' i' a' r' v'.
        if var' = var \<and> t' = t \<and> i' = i \<and> a' = a \<and> r' = r \<and> v' = v
        then V var' t' i' a' r' v' + x else V var' t' i' a' r' v')"

text \<open>Modelled from the spec: \<^verbatim>\<open>transition\<close> of the base class \<^verbatim>\<open>EpidemicSimulation\<close>, which is
  not part of the sources at hand. It moves \<open>n\<close> individuals of one full stratum from one
  variable to another at time \<open>time + 1\<close>; when fewer than \<open>n\<close> are available it clamps to the
  available number and logs a warning. It returns the number moved.\<close>

definition moved :: "sim \<Rightarrow> int \<Rightarrow> variable \<Rightarrow> int \<Rightarrow> int list \<Rightarrow> real" where
  "moved s n fromVar nodeId sv =
     (let available = variables s fromVar (time s + 1) (nodeIdToIndex s nodeId)
                        (nat (sv ! 0)) (nat (sv ! 1)) (nat (sv ! 2))
      in if available < real_of_int n then available else real_of_int n)"

definition transition ::
  "sim \<Rightarrow> int \<Rightarrow> variable \<Rightarrow> variable \<Rightarrow> int \<Rightarrow> int list \<Rightarrow> sim \<times> real" where
  "transition s n fromVar toVar nodeId sv =
     (let t = time s + 1; i = nodeIdToIndex s nodeId;
          a = nat (sv ! 0); r = nat (sv ! 1); v = nat (sv ! 2);
          m = moved s n fromVar nodeId sv;
          s1 = (if m < real_of_int n
                then s\<lparr>flog := flog s @ [(LOG_WARN, ''transition clamped to available'')]\<rparr>
                else s)
      in (s1\<lparr>variables := addTo (addTo (variables s1) fromVar t i a r v (- m)) toVar t i a r v m\<rparr>,
          m))"

text \<open>Modelled from the spec: \<^verbatim>\<open>EpidemicSimulation::expose\<close>, the base transition from
  susceptible to exposed; it returns the number actually moved.\<close>

definition EpidemicSimulation_expose :: "sim \<Rightarrow> int \<Rightarrow> int \<Rightarrow> int list \<Rightarrow> sim \<times> int" where
  "EpidemicSimulation_expose s num nodeId sv =
     (let (s1, m) = transition s num Susceptible Exposed nodeId sv in (s1, toInt m))"

section \<open>Random draws\<close>

text \<open>Modelled from the spec: the generator class \<^verbatim>\<open>MTRand\<close> comes from a header that is not
  part of the sources at hand. A generator is the stream of its future uniform draws;
  \<^verbatim>\<open>rand()\<close> takes the next one, \<^verbatim>\<open>randInt(n)\<close> maps the next one to an integer of
  \<open>[0, n]\<close>, the argument being read as an unsigned 32-bit number.\<close>

definition MTRand_rand :: "(nat \<Rightarrow> real) \<Rightarrow> real \<times> (nat \<Rightarrow> real)" where
  "MTRand_rand g = (g 0, \<lambda>k. g (Suc k))"

definition MTRand_randInt :: "(nat \<Rightarrow> real) \<Rightarrow> int \<Rightarrow> int \<times> (nat \<Rightarrow> real)" where
  "MTRand_randInt g n =
     (let m = n mod 2 ^ 32 in (max 0 (min m \<lfloor>g 0 * real_of_int (m + 1)\<rfloor>), \<lambda>k. g (Suc k)))"

text \<open>Modelled from the spec: \<^verbatim>\<open>gsl_ran_binomial(r, p, n)\<close> of the GSL, as the number of
  successes among the next \<open>n\<close> uniform draws of the generator \<^verbatim>\<open>randGenerator_\<close>.\<close>

definition gsl_ran_binomial :: "(nat \<Rightarrow> real) \<Rightarrow> real \<Rightarrow> int \<Rightarrow> int \<times> (nat \<Rightarrow> real)" where
  "gsl_ran_binomial g p n =
     (int (length (filter (\<lambda>k. g k < p) [0..<nat n])), \<lambda>k. g (k + nat n))"

section \<open>Schedules and the queue of schedules\<close>

text \<open>Modelled from the spec: the class \<^verbatim>\<open>StochasticSEATIRDSchedule\<close> is not part of the
  sources at hand. Its accessors are read off the record; the pending event with the least
  time is the top event, and popping a transition event moves the schedule to the
  destination state.\<close>

definition getTopEvent :: "StochasticSEATIRDSchedule \<Rightarrow> StochasticSEATIRDEvent option" where
  "getTopEvent sch =
     (case eventQueue sch of
        [] \<Rightarrow> None
      | e # es \<Rightarrow> Some (foldl (\<lambda>m x. if eventTime x < eventTime m then x else m) e es))"

definition stateAfter ::
  "StochasticSEATIRDEventType \<Rightarrow> StochasticSEATIRDScheduleState \<Rightarrow> StochasticSEATIRDScheduleState" where
  "stateAfter ty st =
     (case ty of EtoA \<Rightarrow> A | AtoT \<Rightarrow> T | AtoR \<Rightarrow> R | AtoD \<Rightarrow> D | TtoI \<Rightarrow> I
               | TtoR \<Rightarrow> R | TtoD \<Rightarrow> D | ItoR \<Rightarrow> R | ItoD \<Rightarrow> D | CONTACT \<Rightarrow> st)"

definition popTopEvent :: "StochasticSEATIRDSchedule \<Rightarrow> StochasticSEATIRDSchedule" where
  "popTopEvent sch =
     (case getTopEvent sch of
        None \<Rightarrow> sch
      | Some e \<Rightarrow> sch\<lparr>eventQueue := remove1 e (eventQueue sch),
                      state := stateAfter (eventType e) (state sch)\<rparr>)"

definition insertEvent ::
  "StochasticSEATIRDSchedule \<Rightarrow> StochasticSEATIRDEvent \<Rightarrow> StochasticSEATIRDSchedule" where
  "insertEvent sch e = sch\<lparr>eventQueue := eventQueue sch @ [e]\<rparr>"

definition cancel :: "StochasticSEATIRDSchedule \<Rightarrow> StochasticSEATIRDSchedule" where
  "cancel sch = sch\<lparr>canceled := True\<rparr>"

definition changeStratificationValues ::
  "StochasticSEATIRDSchedule \<Rightarrow> int list \<Rightarrow> StochasticSEATIRDSchedule" where
  "changeStratificationValues sch sv =
     sch\<lparr>stratificationValues := sv,
         eventQueue := map (\<lambda>e. e\<lparr>fromStratificationValues := sv\<rparr>) (eventQueue sch)\<rparr>"

definition nextEventTime :: "StochasticSEATIRDSchedule \<Rightarrow> real option" where
  "nextEventTime sch = map_option eventTime (getTopEvent sch)"

text \<open>The comparison \<^verbatim>\<open>compareByNextEventTime\<close> and the top of a node's heap.\<close>

definition earlier :: "StochasticSEATIRDSchedule \<Rightarrow> StochasticSEATIRDSchedule \<Rightarrow> bool" where
  "earlier x y =
     (case nextEventTime x of
        None \<Rightarrow> False
      | Some tx \<Rightarrow> (case nextEventTime y of None \<Rightarrow> True | Some ty \<Rightarrow> tx < ty))"

definition queueTop :: "StochasticSEATIRDSchedule list \<Rightarrow> StochasticSEATIRDSchedule option" where
  "queueTop q =
     (case q of [] \<Rightarrow> None | x # xs \<Rightarrow> Some (foldl (\<lambda>m y. if earlier y m then y else m) x xs))"

definition queuePush :: "sim \<Rightarrow> int \<Rightarrow> StochasticSEATIRDSchedule \<Rightarrow> sim" where
  "queuePush s nodeId sch =
     s\<lparr>scheduleEventQueues := (scheduleEventQueues s)(nodeId := scheduleEventQueues s nodeId @ [sch])\<rparr>"

definition queuePop :: "sim \<Rightarrow> int \<Rightarrow> StochasticSEATIRDSchedule \<Rightarrow> sim" where
  "queuePop s nodeId sch =
     s\<lparr>scheduleEventQueues := (scheduleEventQueues s)(nodeId := remove1 sch (scheduleEventQueues s nodeId))\<rparr>"

section \<open>Collaborators outside the sources at hand\<close>

text \<open>
  The functions below are called by the model class and defined elsewhere: the
  constructor of a schedule, which draws the chain of transitions of one exposed
  individual from \<^verbatim>\<open>rand_\<close>; \<^verbatim>\<open>random_exponential\<close>, whose result is \<open>None\<close> when it is not
  finite; the two queries of the class \<^verbatim>\<open>Npi\<close>, with the list of interventions already
  supplied; the travel fractions and populations of the data set; the stockpile network's
  daily evolution; and the sentinel reporting \<^verbatim>\<open>iliView\<close>. They are parameters of the model.
\<close>

record extern =
  newSchedule :: "real \<Rightarrow> (nat \<Rightarrow> real) \<Rightarrow> int list \<Rightarrow> StochasticSEATIRDSchedule \<times> (nat \<Rightarrow> real)"
  random_exponential :: "real \<Rightarrow> (nat \<Rightarrow> real) \<Rightarrow> real option \<times> (nat \<Rightarrow> real)"
  isNpiEffective :: "int \<Rightarrow> int \<Rightarrow> int \<Rightarrow> int \<Rightarrow> bool"
  getNpiEffectiveness :: "int \<Rightarrow> int \<Rightarrow> nat \<Rightarrow> nat \<Rightarrow> real"
  getTravel :: "int \<Rightarrow> int \<Rightarrow> real"
  getPopulation :: "int \<Rightarrow> real"
  evolveStockpiles :: "int \<Rightarrow> (int \<Rightarrow> Stockpile option) \<Rightarrow> (int \<Rightarrow> Stockpile option)"
  iliView :: "real list \<Rightarrow> real list \<Rightarrow> real list"

section \<open>Cached populations\<close>

definition precompute :: "sim \<Rightarrow> int \<Rightarrow> sim" where
  "precompute s t =
     s\<lparr>cachedTime := t,
       populationNodes :=
         (\<lambda>i. if i < length (nodeIds s) then getValue s Population t (nodeIds s ! i) [] else 0),
       populations :=
         (\<lambda>i a r v. if i < length (nodeIds s) \<and> a < numAgeGroups \<and> r < numRiskGroups
                        \<and> v < numVaccinatedGroups
                     then getValue s Population t (nodeIds s ! i) [int a, int r, int v] else 0)\<rparr>"

section \<open>Contact events of a new schedule\<close>

definition sigma :: "real list" where
  "sigma = [1.00, 0.98, 0.94, 0.91, 0.66]"

definition contact :: "real list list" where
  "contact =
     [[45.1228487783, 8.7808312353, 11.7757947836, 6.10114751268, 4.02227175596],
      [8.7808312353, 41.2889143668, 13.3332813497, 7.847051289, 4.22656343551],
      [11.7757947836, 13.3332813497, 21.4270155984, 13.7392636644, 6.92483172729],
      [6.10114751268, 7.847051289, 13.7392636644, 18.0482119252, 9.45371062356],
      [4.02227175596, 4.22656343551, 6.92483172729, 9.45371062356, 14.0529294262]]"

text \<open>The loop \<^verbatim>\<open>while(Tc < TcFinal)\<close>: it inserts one contact event per draw that falls
  before the end of the infected period. It need not terminate, so its result is optional.\<close>

partial_function (option) contactLoop ::
  "extern \<Rightarrow> real \<Rightarrow> real \<Rightarrow> int list \<Rightarrow> int list \<Rightarrow> real \<Rightarrow> real option
     \<Rightarrow> StochasticSEATIRDSchedule \<Rightarrow> (nat \<Rightarrow> real)
     \<Rightarrow> (StochasticSEATIRDSchedule \<times> (nat \<Rightarrow> real)) option" where
  "contactLoop x transmissionRate TcFinal sv toSv TcInit Tc sch g =
     (case Tc of
        None \<Rightarrow> Some (sch, g)
      | Some tc \<Rightarrow>
          if tc < TcFinal then
            (let sch1 = insertEvent sch
                   \<lparr>initializationTime = TcInit, eventTime = tc, eventType = CONTACT,
                    fromStratificationValues = sv, toStratificationValues = toSv\<rparr>;
                 d = random_exponential x transmissionRate g
             in contactLoop x transmissionRate TcFinal sv toSv tc
                  (map_option (\<lambda>e. tc + e) (fst d)) sch1 (snd d))
          else Some (sch, g))"

text \<open>The body of the two nested \<^verbatim>\<open>for\<close> loops for one target (age, risk).\<close>

definition contactEventsFor ::
  "extern \<Rightarrow> Parameters \<Rightarrow> sim \<Rightarrow> int \<Rightarrow> int list \<Rightarrow> nat \<times> nat
     \<Rightarrow> StochasticSEATIRDSchedule \<times> (nat \<Rightarrow> real)
     \<Rightarrow> (StochasticSEATIRDSchedule \<times> (nat \<Rightarrow> real)) option" where
  "contactEventsFor x p s nodeId sv ar sg =
     (let a = fst ar; r = snd ar; sch = fst sg; g = snd sg;
          beta = R0 p / betaScale p;
          toSv = [int a, int r];
          i = nodeIdToIndex s nodeId;
          toGroupFraction = (populations s i a r 0 + populations s i a r 1) / populationNodes s i;
          contactRate = contact ! nat (sv ! 0) ! a;
          transmissionRate = beta * contactRate * sigma ! a * toGroupFraction;
          TcInit = infectedTMin sch;
          TcFinal = infectedTMax sch;
          d = random_exponential x transmissionRate g
      in contactLoop x transmissionRate TcFinal sv toSv TcInit
           (map_option (\<lambda>e. TcInit + e) (fst d)) sch (snd d))"

fun forEachOption :: "('b \<Rightarrow> 'a \<Rightarrow> 'a option) \<Rightarrow> 'b list \<Rightarrow> 'a \<Rightarrow> 'a option" where
  "forEachOption f [] acc = Some acc"
| "forEachOption f (y # ys) acc = Option.bind (f y acc) (forEachOption f ys)"

definition ageRiskPairs :: "(nat \<times> nat) list" where
  "ageRiskPairs = concat (map (\<lambda>a. map (\<lambda>r. (a, r)) [0..<numRiskGroups]) [0..<numAgeGroups])"

definition initializeContactEvents ::
  "extern \<Rightarrow> Parameters \<Rightarrow> sim \<Rightarrow> StochasticSEATIRDSchedule \<Rightarrow> int \<Rightarrow> int list
     \<Rightarrow> (StochasticSEATIRDSchedule \<times> sim) option" where
  "initializeContactEvents x p s sch nodeId sv =
     (if length (stratifications s ! 0) \<noteq> numAgeGroups
         \<or> length (stratifications s ! 1) \<noteq> numRiskGroups
         \<or> length (stratifications s ! 2) \<noteq> numVaccinatedGroups
      then Some (sch, s\<lparr>flog := flog s @ [(LOG_ERROR, ''wrong number of stratifications'')]\<rparr>)
      else Option.bind (forEachOption (contactEventsFor x p s nodeId sv) ageRiskPairs (sch, rand s))
             (\<lambda>(sch1, g1). Some (sch1, s\<lparr>rand := g1\<rparr>)))"

section \<open>Exposure\<close>

text \<open>The loop over the newly exposed: one schedule each, pushed on the node's queue.\<close>

fun exposeLoop :: "extern \<Rightarrow> Parameters \<Rightarrow> nat \<Rightarrow> int \<Rightarrow> int list \<Rightarrow> sim \<Rightarrow> sim option" where
  "exposeLoop x p 0 nodeId sv s = Some s"
| "exposeLoop x p (Suc k) nodeId sv s =
     (let (sch, g) = newSchedule x (now s) (rand s) sv in
      Option.bind (initializeContactEvents x p (s\<lparr>rand := g\<rparr>) sch nodeId sv)
        (\<lambda>(sch1, s1). exposeLoop x p k nodeId sv (queuePush s1 nodeId sch1)))"

text \<open>The state in which \<^verbatim>\<open>expose\<close> makes its base transition: the cached populations are
  computed first where they are missing or stale.\<close>

definition exposeEntry :: "sim \<Rightarrow> sim" where
  "exposeEntry s =
     (if time s = 0 \<and> cachedTime s = - 1
      then precompute (s\<lparr>flog := flog s @ [(LOG_DEBUG, ''precomputing at beginning of simulation'')]\<rparr>) 0
      else if time s \<noteq> 0 \<and> cachedTime s \<noteq> time s + 1
      then precompute (s\<lparr>flog := flog s @ [(LOG_WARN, ''precomputing during simulation'')]\<rparr>) (time s + 1)
      else s)"

definition expose :: "extern \<Rightarrow> Parameters \<Rightarrow> sim \<Rightarrow> int \<Rightarrow> int \<Rightarrow> int list \<Rightarrow> (sim \<times> int) option" where
  "expose x p s num nodeId sv =
     (let (s2, numExposed) = EpidemicSimulation_expose (exposeEntry s) num nodeId sv
      in map_option (\<lambda>s3. (s3, numExposed)) (exposeLoop x p (nat numExposed) nodeId sv s2))"

section \<open>Processing one event\<close>

definition getPopulationInVaccineLatencyPeriod :: "Parameters \<Rightarrow> sim \<Rightarrow> int \<Rightarrow> nat \<Rightarrow> nat \<Rightarrow> int" where
  "getPopulationInVaccineLatencyPeriod p s nodeId ageGroup riskGroup =
     latencyLoop (\<lambda>d. toInt (variables s VaccinatedDaily d (nodeIdToIndex s nodeId) ageGroup riskGroup 1))
       (time s + 1 - vaccineLatencyPeriod p) (time s + 1) 0"

text \<open>The disease transitions: source and destination variable of each event type.\<close>

fun transitionOf :: "StochasticSEATIRDEventType \<Rightarrow> (variable \<times> variable) option" where
  "transitionOf EtoA = Some (Exposed, Asymptomatic)"
| "transitionOf AtoT = Some (Asymptomatic, Treatable)"
| "transitionOf AtoR = Some (Asymptomatic, Recovered)"
| "transitionOf AtoD = Some (Asymptomatic, Deceased)"
| "transitionOf TtoI = Some (Treatable, Infectious)"
| "transitionOf TtoR = Some (Treatable, Recovered)"
| "transitionOf TtoD = Some (Treatable, Deceased)"
| "transitionOf ItoR = Some (Infectious, Recovered)"
| "transitionOf ItoD = Some (Infectious, Deceased)"
| "transitionOf CONTACT = None"

text \<open>The last part of the \<^verbatim>\<open>CONTACT\<close> case, entered with the vaccinated status \<open>v\<close> of the
  target decided: the target stratum is completed and the contact is tested against its
  susceptibles.\<close>

definition contactTargetPopulationSize :: "sim \<Rightarrow> int \<Rightarrow> StochasticSEATIRDEvent \<Rightarrow> int \<Rightarrow> int" where
  "contactTargetPopulationSize s nodeId event v =
     (let completeToStratificationValues = toStratificationValues event @ [v];
          targetPopulationSize =
            toInt (populations s (nodeIdToIndex s nodeId)
                     (nat (completeToStratificationValues ! 0))
                     (nat (completeToStratificationValues ! 1))
                     (nat (completeToStratificationValues ! 2)))
      in if fromStratificationValues event = completeToStratificationValues
         then targetPopulationSize - 1 else targetPopulationSize)"

definition contactDispatch ::
  "extern \<Rightarrow> Parameters \<Rightarrow> int \<Rightarrow> StochasticSEATIRDEvent \<Rightarrow> int \<Rightarrow> sim \<Rightarrow> (sim \<times> bool) option" where
  "contactDispatch x p nodeId event v s =
     (let completeToStratificationValues = toStratificationValues event @ [v];
          targetPopulationSize = contactTargetPopulationSize s nodeId event v
      in if 0 < targetPopulationSize then
           (let d = MTRand_randInt (rand s) (targetPopulationSize - 1);
                contactNo = fst d + 1;
                s1 = s\<lparr>rand := snd d\<rparr>
            in if contactNo \<le> toInt (getValue s1 Susceptible (time s1 + 1) nodeId
                                        completeToStratificationValues)
               then map_option (\<lambda>(s2, n). (s2, True))
                      (expose x p s1 1 nodeId completeToStratificationValues)
               else Some (s1, True))
         else Some (s, True))"

definition processEvent ::
  "extern \<Rightarrow> Parameters \<Rightarrow> int \<Rightarrow> StochasticSEATIRDEvent \<Rightarrow> sim \<Rightarrow> (sim \<times> bool) option" where
  "processEvent x p nodeId event s =
     (case transitionOf (eventType event) of
        Some (fromVar, toVar) \<Rightarrow>
          Some (fst (transition s 1 fromVar toVar nodeId (fromStratificationValues event)), True)
      | None \<Rightarrow>
          if length (toStratificationValues event) \<noteq> 2
          then Some (s\<lparr>flog := flog s @ [(LOG_ERROR, ''incorrect event.toStratificationValues'')]\<rparr>, False)
          else if isNpiEffective x nodeId (toInt (now s)) (fromStratificationValues event ! 0)
                    (toStratificationValues event ! 0)
          then Some (s, True)
          else
            (let i = nodeIdToIndex s nodeId;
                 toA = nat (toStratificationValues event ! 0);
                 toR = nat (toStratificationValues event ! 1);
                 ageRiskPopulationSize = toInt (populations s i toA toR 0 + populations s i toA toR 1);
                 ageRiskVaccinatedPopulationSize = toInt (populations s i toA toR 1);
                 d = MTRand_randInt (rand s) (ageRiskPopulationSize - 1);
                 contactNo = fst d + 1;
                 s1 = s\<lparr>rand := snd d\<rparr>
             in if contactNo \<le> ageRiskVaccinatedPopulationSize then
                  (if getPopulationInVaccineLatencyPeriod p s1 nodeId toA toR < contactNo then
                     (let u = MTRand_rand (rand s1); s2 = s1\<lparr>rand := snd u\<rparr>
                      in if fst u \<le> vaccineEffectiveness p then Some (s2, True)
                         else contactDispatch x p nodeId event 1 s2)
                   else contactDispatch x p nodeId event 1 s1)
                else contactDispatch x p nodeId event 0 s1))"

section \<open>Antiviral treatment\<close>

text \<open>The local arrays of one node's treatment.\<close>

record antiviralLocals =
  numberTreated :: "nat \<Rightarrow> nat \<Rightarrow> nat \<Rightarrow> int"
  numberEffectivelyTreated :: "nat \<Rightarrow> nat \<Rightarrow> nat \<Rightarrow> int"
  numberTreatable :: "nat \<Rightarrow> nat \<Rightarrow> nat \<Rightarrow> real"

text \<open>The amount of the stockpile that one node uses: the stockpile, cut to the adherent
  treatable and to the capacity that is left for the day. The parameters are of type
  \<^verbatim>\<open>double\<close> and the local variables of type \<^verbatim>\<open>float\<close>: a product or difference with a
  parameter is rounded to \<^verbatim>\<open>double\<close>, and a value stored in a local variable is rounded to
  \<^verbatim>\<open>float\<close>.\<close>

definition totalTreatable :: "sim \<Rightarrow> int \<Rightarrow> PriorityGroupSelections \<Rightarrow> real" where
  "totalTreatable s nodeId g =
     toFloat (getValueSet s Treatable (time s + 1) nodeId (stratificationValuesSet g)
                - getValueSet s TreatedIneffectiveDaily (time s + 1) nodeId (stratificationValuesSet g))"

definition adherentTreatableTotal :: "Parameters \<Rightarrow> sim \<Rightarrow> int \<Rightarrow> PriorityGroupSelections \<Rightarrow> real" where
  "adherentTreatableTotal p s nodeId g =
     toFloat (toDouble (antiviralAdherence p * totalTreatable s nodeId g))"

definition antiviralCapacityLeft :: "Parameters \<Rightarrow> sim \<Rightarrow> int \<Rightarrow> real" where
  "antiviralCapacityLeft p s nodeId =
     (let capacityTotalPopulation = toFloat (getValue s Population (time s + 1) nodeId []);
          todayUsedCapacity =
            toFloat (sum3 (variables s TreatedDaily (time s + 1) (nodeIdToIndex s nodeId)))
      in toDouble (toDouble (antiviralCapacity p * capacityTotalPopulation) - todayUsedCapacity))"

definition antiviralStockpileAmountUsed ::
  "Parameters \<Rightarrow> sim \<Rightarrow> int \<Rightarrow> PriorityGroupSelections \<Rightarrow> int \<Rightarrow> int" where
  "antiviralStockpileAmountUsed p s nodeId g stockpileAmount =
     (let totalAdherentTreatable = adherentTreatableTotal p s nodeId g;
          used1 = (if toInt totalAdherentTreatable < stockpileAmount
                   then toInt totalAdherentTreatable else stockpileAmount)
      in if toInt (antiviralCapacityLeft p s nodeId) < used1
         then toInt (antiviralCapacityLeft p s nodeId) else used1)"

text \<open>The body of the loop over the strata of the selection: the adherent treatable of
  the stratum, its share of the amount used, and the writes for those treated.\<close>

definition treatableOf :: "sim \<Rightarrow> int \<Rightarrow> int list \<Rightarrow> real" where
  "treatableOf s nodeId sv0 =
     toFloat (getValue s Treatable (time s + 1) nodeId [sv0 ! 0, sv0 ! 1, sv0 ! 2]
                - getValue s TreatedIneffectiveDaily (time s + 1) nodeId [sv0 ! 0, sv0 ! 1, sv0 ! 2])"

definition numberTreatedOf :: "Parameters \<Rightarrow> sim \<Rightarrow> int \<Rightarrow> real \<Rightarrow> int \<Rightarrow> int list \<Rightarrow> int" where
  "numberTreatedOf p s nodeId totalAdherentTreatable stockpileAmountUsed sv0 =
     (let adherentTreatable = toFloat (toDouble (antiviralAdherence p * treatableOf s nodeId sv0))
      in toInt (toFloat (toFloat (adherentTreatable / totalAdherentTreatable)
                           * toFloat (real_of_int stockpileAmountUsed))))"

definition treatStratum ::
  "Parameters \<Rightarrow> int \<Rightarrow> real \<Rightarrow> int \<Rightarrow> int list \<Rightarrow> sim \<times> antiviralLocals \<Rightarrow> sim \<times> antiviralLocals" where
  "treatStratum p nodeId totalAdherentTreatable stockpileAmountUsed sv0 sl =
     (let s = fst sl; loc = snd sl;
          a = nat (sv0 ! 0); r = nat (sv0 ! 1); v = nat (sv0 ! 2);
          sv = [sv0 ! 0, sv0 ! 1, sv0 ! 2];
          t = time s + 1; i = nodeIdToIndex s nodeId;
          treatable = treatableOf s nodeId sv0
      in if treatable \<le> 0 then
           (s, loc\<lparr>numberTreated := upd3 (numberTreated loc) a r v 0,
                  numberEffectivelyTreated := upd3 (numberEffectivelyTreated loc) a r v 0,
                  numberTreatable := upd3 (numberTreatable loc) a r v 0\<rparr>)
         else
           (let nT = numberTreatedOf p s nodeId totalAdherentTreatable stockpileAmountUsed sv0;
                nE = toInt (toDouble (antiviralEffectiveness p * toFloat (real_of_int nT)));
                loc1 = loc\<lparr>numberTreated := upd3 (numberTreated loc) a r v nT,
                          numberEffectivelyTreated := upd3 (numberEffectivelyTreated loc) a r v nE,
                          numberTreatable := upd3 (numberTreatable loc) a r v treatable\<rparr>
            in if nT \<le> 0 then (s, loc1)
               else
                 (let s1 = fst (transition s nE Treatable Recovered nodeId sv);
                      V1 = addTo (variables s1) TreatedDaily t i a r v (real_of_int nT);
                      V2 = addTo V1 TreatedIneffectiveDaily t i a r v (real_of_int (nT - nE));
                      V3 = addTo V2 Treated t i a r v (real_of_int nT)
                  in (s1\<lparr>variables := V3\<rparr>, loc1))))"

text \<open>The walk over the node's schedules that cancels those of the effectively treated.
  It stops as soon as no effectively treated individual is left to place; the draw from
  \<^verbatim>\<open>rand_\<close> is made only for a schedule that is not canceled yet.\<close>

fun cancelLoop ::
  "StochasticSEATIRDSchedule list \<Rightarrow> antiviralLocals \<Rightarrow> (nat \<Rightarrow> real)
     \<Rightarrow> StochasticSEATIRDSchedule list \<times> antiviralLocals \<times> (nat \<Rightarrow> real)" where
  "cancelLoop [] loc g = ([], loc, g)"
| "cancelLoop (sch # rest) loc g =
     (if 0 < sum3 (numberEffectivelyTreated loc) then
        (let a = nat (stratificationValues sch ! 0);
             r = nat (stratificationValues sch ! 1);
             v = nat (stratificationValues sch ! 2)
         in if state sch = T \<and> 0 < numberEffectivelyTreated loc a r v then
              (let hit = (\<not> canceled sch
                           \<and> fst (MTRand_rand g)
                               \<le> toFloat (toFloat (real_of_int (numberEffectivelyTreated loc a r v))
                                            / numberTreatable loc a r v));
                   g1 = (if canceled sch then g else snd (MTRand_rand g));
                   sch1 = (if hit then cancel sch else sch);
                   loc1 = (if hit
                           then loc\<lparr>numberEffectivelyTreated :=
                                      upd3 (numberEffectivelyTreated loc) a r v
                                        (numberEffectivelyTreated loc a r v - 1)\<rparr>
                           else loc);
                   loc2 = loc1\<lparr>numberTreatable :=
                                 upd3 (numberTreatable loc1) a r v
                                   (toFloat (numberTreatable loc1 a r v - 1))\<rparr>;
                   res = cancelLoop rest loc2 g1
               in (sch1 # fst res, snd res))
            else (let res = cancelLoop rest loc g in (sch # fst res, snd res)))
      else (sch # rest, loc, g))"

definition warnUnless :: "bool \<Rightarrow> string \<Rightarrow> sim \<Rightarrow> sim" where
  "warnUnless ok msg s = (if ok then s else s\<lparr>flog := flog s @ [(LOG_WARN, msg)]\<rparr>)"

text \<open>The body of the loop over the nodes.\<close>

definition treatNode :: "Parameters \<Rightarrow> PriorityGroupSelections \<Rightarrow> int \<Rightarrow> sim \<Rightarrow> sim" where
  "treatNode p g nodeId s =
     (case stockpileNetwork s nodeId of
        None \<Rightarrow> s
      | Some stockpile \<Rightarrow>
          (let stockpileAmount = stockpile (time s + 1) STOCKPILE_ANTIVIRALS in
           if stockpileAmount = 0 then s
           else if totalTreatable s nodeId g \<le> 0
           then s
           else
             (let totalAdherentTreatable = adherentTreatableTotal p s nodeId g;
                  stockpileAmountUsed = antiviralStockpileAmountUsed p s nodeId g stockpileAmount
              in if stockpileAmountUsed \<le> 0 then s
                 else
                   (let s1 = s\<lparr>stockpileNetwork := (stockpileNetwork s)
                                  (nodeId \<mapsto> setNum stockpile (time s + 1)
                                     (stockpileAmount - stockpileAmountUsed) STOCKPILE_ANTIVIRALS)\<rparr>;
                        loc0 = \<lparr>numberTreated = (\<lambda>a r v. 0), numberEffectivelyTreated = (\<lambda>a r v. 0),
                                numberTreatable = (\<lambda>a r v. 0)\<rparr>;
                        sl = fold (treatStratum p nodeId totalAdherentTreatable stockpileAmountUsed)
                               (stratificationValuesSet g) (s1, loc0);
                        s2 = warnUnless (sum3 (numberTreated (snd sl)) = stockpileAmountUsed)
                               ''numberTreated != stockpileAmountUsed'' (fst sl);
                        res = cancelLoop (scheduleEventQueues s2 nodeId) (snd sl) (rand s2);
                        s3 = s2\<lparr>scheduleEventQueues := (scheduleEventQueues s2)(nodeId := fst res),
                                rand := snd (snd res)\<rparr>
                    in warnUnless (sum3 (numberEffectivelyTreated (fst (snd res))) = 0)
                         ''numberEffectivelyTreated != 0'' s3))))"

definition applyAntiviralsToPriorityGroupSelections ::
  "Parameters \<Rightarrow> PriorityGroupSelections option \<Rightarrow> sim \<Rightarrow> sim" where
  "applyAntiviralsToPriorityGroupSelections p sel0 s =
     (case sel0 of
        None \<Rightarrow> s\<lparr>flog := flog s @ [(LOG_DEBUG, ''no priority groups in selection'')]\<rparr>
      | Some g \<Rightarrow>
          if priorityGroups g = []
          then s\<lparr>flog := flog s @ [(LOG_DEBUG, ''no priority groups in selection'')]\<rparr>
          else fold (treatNode p g) (nodeIds s) s)"

section \<open>Vaccination\<close>

definition compartments :: "variable list" where
  "compartments = [Susceptible, Exposed, Asymptomatic, Treatable, Infectious, Recovered]"

record vaccineLocals =
  numberVaccinated :: "nat \<Rightarrow> nat \<Rightarrow> nat \<Rightarrow> int"
  numberVaccinatable :: "nat \<Rightarrow> nat \<Rightarrow> nat \<Rightarrow> int"

definition sumVaccinated :: "(nat \<Rightarrow> nat \<Rightarrow> nat \<Rightarrow> int) \<Rightarrow> int" where
  "sumVaccinated f = (\<Sum>c<length compartments. \<Sum>a<numAgeGroups. \<Sum>r<numRiskGroups. f c a r)"

definition totalUnvaccinatedPopulation :: "sim \<Rightarrow> int \<Rightarrow> PriorityGroupSelections \<Rightarrow> real" where
  "totalUnvaccinatedPopulation s nodeId g =
     toFloat (getValueSet s Population (time s + 1) nodeId (getStratificationValuesSet2 g 0))"

definition adherentUnvaccinatedTotal :: "Parameters \<Rightarrow> sim \<Rightarrow> int \<Rightarrow> PriorityGroupSelections \<Rightarrow> real" where
  "adherentUnvaccinatedTotal p s nodeId g =
     (let totalPopulation =
            toFloat (getValueSet s Population (time s + 1) nodeId
                       (getStratificationValuesSet2 g STRATIFICATIONS_ALL));
          totalVaccinatedPopulation =
            toFloat (getValueSet s Population (time s + 1) nodeId (getStratificationValuesSet2 g 1))
      in toFloat (toDouble (toDouble (vaccineAdherence p * totalPopulation) - totalVaccinatedPopulation)))"

definition vaccineCapacityLeft :: "Parameters \<Rightarrow> sim \<Rightarrow> int \<Rightarrow> real" where
  "vaccineCapacityLeft p s nodeId =
     (let capacityTotalPopulation = toFloat (getValue s Population (time s + 1) nodeId []);
          todayUsedCapacity =
            toFloat (\<Sum>a<numAgeGroups. \<Sum>r<numRiskGroups.
                       variables s VaccinatedDaily (time s + 1) (nodeIdToIndex s nodeId) a r 1)
      in toDouble (toDouble (vaccineCapacity p * capacityTotalPopulation) - todayUsedCapacity))"

definition vaccineStockpileAmountUsed ::
  "Parameters \<Rightarrow> sim \<Rightarrow> int \<Rightarrow> PriorityGroupSelections \<Rightarrow> int \<Rightarrow> int" where
  "vaccineStockpileAmountUsed p s nodeId g stockpileAmount =
     (let totalAdherentUnvaccinated = adherentUnvaccinatedTotal p s nodeId g;
          used1 = (if toInt totalAdherentUnvaccinated < stockpileAmount
                   then toInt totalAdherentUnvaccinated else stockpileAmount)
      in if toInt (vaccineCapacityLeft p s nodeId) < used1
         then toInt (vaccineCapacityLeft p s nodeId) else used1)"

text \<open>The body of the loops over the compartments and the (age, risk) pairs of the
  selection: the number of the compartment's unvaccinated that are vaccinated, and the
  writes that move them.\<close>

definition numberVaccinatedOf :: "Parameters \<Rightarrow> sim \<Rightarrow> int \<Rightarrow> real \<Rightarrow> int \<Rightarrow> nat \<Rightarrow> int list \<Rightarrow> int" where
  "numberVaccinatedOf p s nodeId totalAdherentUnvaccinated stockpileAmountUsed c sv0 =
     (let t = time s + 1;
          population = toFloat (getValue s Population t nodeId [sv0 ! 0, sv0 ! 1, STRATIFICATIONS_ALL]);
          vaccinatedPopulation = toFloat (getValue s Population t nodeId [sv0 ! 0, sv0 ! 1, 1]);
          unvaccinatedPopulation = toFloat (getValue s Population t nodeId [sv0 ! 0, sv0 ! 1, 0]);
          compartmentUnvaccinated =
            toFloat (getValue s (compartments ! c) t nodeId [sv0 ! 0, sv0 ! 1, 0]);
          adherentCompartmentUnvaccinated =
            toFloat (toDouble (toDouble (toDouble (toDouble (vaccineAdherence p * population)
                                                     - vaccinatedPopulation)
                                           * compartmentUnvaccinated)
                                 / unvaccinatedPopulation))
      in toInt (toFloat (toFloat (adherentCompartmentUnvaccinated / totalAdherentUnvaccinated)
                           * toFloat (real_of_int stockpileAmountUsed))))"

definition vaccinateStratum ::
  "Parameters \<Rightarrow> int \<Rightarrow> real \<Rightarrow> int \<Rightarrow> nat \<times> int list \<Rightarrow> sim \<times> vaccineLocals \<Rightarrow> sim \<times> vaccineLocals" where
  "vaccinateStratum p nodeId totalAdherentUnvaccinated stockpileAmountUsed csv sl =
     (let s = fst sl; loc = snd sl; c = fst csv; sv0 = snd csv;
          a = nat (sv0 ! 0); r = nat (sv0 ! 1);
          t = time s + 1; i = nodeIdToIndex s nodeId;
          unvaccinatedPopulation = toFloat (getValue s Population t nodeId [sv0 ! 0, sv0 ! 1, 0]);
          compartmentUnvaccinated =
            toFloat (getValue s (compartments ! c) t nodeId [sv0 ! 0, sv0 ! 1, 0]);
          loc1 = loc\<lparr>numberVaccinatable := upd3 (numberVaccinatable loc) c a r (toInt compartmentUnvaccinated)\<rparr>
      in if unvaccinatedPopulation \<le> 0 then
           (s, loc1\<lparr>numberVaccinated := upd3 (numberVaccinated loc1) c a r 0\<rparr>)
         else
           (let nV = numberVaccinatedOf p s nodeId totalAdherentUnvaccinated stockpileAmountUsed c sv0;
                loc2 = loc1\<lparr>numberVaccinated := upd3 (numberVaccinated loc1) c a r nV\<rparr>
            in if nV \<le> 0 then (s, loc2)
               else
                 (let V1 = addTo (variables s) (compartments ! c) t i a r 0 (- real_of_int nV);
                      V2 = addTo V1 (compartments ! c) t i a r 1 (real_of_int nV);
                      V3 = addTo V2 Population t i a r 0 (- real_of_int nV);
                      V4 = addTo V3 Population t i a r 1 (real_of_int nV);
                      V5 = addTo V4 VaccinatedDaily t i a r 1 (real_of_int nV)
                  in (s\<lparr>variables := V5\<rparr>, loc2))))"

text \<open>The map \<^verbatim>\<open>stateToCompartmentIndex\<close>.\<close>

fun stateToCompartmentIndex :: "StochasticSEATIRDScheduleState \<Rightarrow> nat option" where
  "stateToCompartmentIndex E = Some 1"
| "stateToCompartmentIndex A = Some 2"
| "stateToCompartmentIndex T = Some 3"
| "stateToCompartmentIndex I = Some 4"
| "stateToCompartmentIndex R = Some 5"
| "stateToCompartmentIndex D = None"

text \<open>The walk over the node's schedules that moves those of the vaccinated to the
  vaccinated stratification.\<close>

fun restratifyLoop ::
  "StochasticSEATIRDSchedule list \<Rightarrow> vaccineLocals \<Rightarrow> (nat \<Rightarrow> real)
     \<Rightarrow> StochasticSEATIRDSchedule list \<times> vaccineLocals \<times> (nat \<Rightarrow> real)" where
  "restratifyLoop [] loc g = ([], loc, g)"
| "restratifyLoop (sch # rest) loc g =
     (if 0 < sumVaccinated (numberVaccinated loc) then
        (case stateToCompartmentIndex (state sch) of
           None \<Rightarrow> (let res = restratifyLoop rest loc g in (sch # fst res, snd res))
         | Some c \<Rightarrow>
             (let sv = stratificationValues sch; a = nat (sv ! 0); r = nat (sv ! 1)
              in if sv ! 2 \<noteq> 1 \<and> 0 < numberVaccinated loc c a r then
                   (let hit = (\<not> canceled sch
                                \<and> fst (MTRand_rand g)
                                    \<le> toFloat (toFloat (real_of_int (numberVaccinated loc c a r))
                                                 / toFloat (real_of_int (numberVaccinatable loc c a r))));
                        g1 = (if canceled sch then g else snd (MTRand_rand g));
                        sch1 = (if hit then changeStratificationValues sch (sv[2 := 1]) else sch);
                        loc1 = (if hit
                                then loc\<lparr>numberVaccinated :=
                                           upd3 (numberVaccinated loc) c a r (numberVaccinated loc c a r - 1)\<rparr>
                                else loc);
                        loc2 = loc1\<lparr>numberVaccinatable :=
                                      upd3 (numberVaccinatable loc1) c a r (numberVaccinatable loc1 c a r - 1)\<rparr>;
                        res = restratifyLoop rest loc2 g1
                    in (sch1 # fst res, snd res))
                 else (let res = restratifyLoop rest loc g in (sch # fst res, snd res))))
      else (sch # rest, loc, g))"

definition vaccinateNode :: "Parameters \<Rightarrow> PriorityGroupSelections \<Rightarrow> int \<Rightarrow> sim \<Rightarrow> sim" where
  "vaccinateNode p g nodeId s =
     (case stockpileNetwork s nodeId of
        None \<Rightarrow> s
      | Some stockpile \<Rightarrow>
          (let stockpileAmount = stockpile (time s + 1) STOCKPILE_VACCINES in
           if stockpileAmount = 0 then s
           else if totalUnvaccinatedPopulation s nodeId g \<le> 0
           then s
           else
             (let totalAdherentUnvaccinated = adherentUnvaccinatedTotal p s nodeId g;
                  stockpileAmountUsed = vaccineStockpileAmountUsed p s nodeId g stockpileAmount
              in if stockpileAmountUsed \<le> 0 then s
                 else
                   (let s1 = s\<lparr>stockpileNetwork := (stockpileNetwork s)
                                  (nodeId \<mapsto> setNum stockpile (time s + 1)
                                     (stockpileAmount - stockpileAmountUsed) STOCKPILE_VACCINES)\<rparr>;
                        loc0 = \<lparr>numberVaccinated = (\<lambda>c a r. 0), numberVaccinatable = (\<lambda>c a r. 0)\<rparr>;
                        sl = fold (vaccinateStratum p nodeId totalAdherentUnvaccinated stockpileAmountUsed)
                               (concat (map (\<lambda>c. map (\<lambda>sv. (c, sv))
                                                     (getStratificationValuesSet2 g STRATIFICATIONS_ALL))
                                          [0..<length compartments]))
                               (s1, loc0);
                        s2 = warnUnless (sumVaccinated (numberVaccinated (snd sl)) = stockpileAmountUsed)
                               ''numberVaccinated != stockpileAmountUsed'' (fst sl);
                        res = restratifyLoop (scheduleEventQueues s2 nodeId) (snd sl) (rand s2)
                    in s2\<lparr>scheduleEventQueues := (scheduleEventQueues s2)(nodeId := fst res),
                          rand := snd (snd res)\<rparr>))))"

definition applyVaccinesToPriorityGroupSelections ::
  "Parameters \<Rightarrow> PriorityGroupSelections option \<Rightarrow> sim \<Rightarrow> sim" where
  "applyVaccinesToPriorityGroupSelections p sel0 s =
     (case sel0 of
        None \<Rightarrow> s\<lparr>flog := flog s @ [(LOG_DEBUG, ''no priority groups in selection'')]\<rparr>
      | Some g \<Rightarrow>
          if priorityGroups g = []
          then s\<lparr>flog := flog s @ [(LOG_DEBUG, ''no priority groups in selection'')]\<rparr>
          else fold (vaccinateNode p g) (nodeIds s) s)"

section \<open>Travel between nodes\<close>

definition RHO :: real where
  "RHO = 0.39"

definition ageBasedFlowReductions :: "real list" where
  "ageBasedFlowReductions = [10, 2, 1, 1, 2]"

text \<open>The counts of one source node by age: \<^verbatim>\<open>asymptomatics[age]\<close> and
  \<^verbatim>\<open>transmittings[age]\<close>.\<close>

definition asymptomatics :: "sim \<Rightarrow> int \<Rightarrow> nat \<Rightarrow> real" where
  "asymptomatics s sourceNodeId age = getValue s Asymptomatic (time s + 1) sourceNodeId [int age]"

definition transmittings :: "sim \<Rightarrow> int \<Rightarrow> nat \<Rightarrow> real" where
  "transmittings s sourceNodeId age =
     asymptomatics s sourceNodeId age
       + getValue s Treatable (time s + 1) sourceNodeId [int age]
       + getValue s Infectious (time s + 1) sourceNodeId [int age]"

text \<open>The two sums of the loop over the partner age \<open>b\<close>, for sink node \<open>i\<close>, source node
  \<open>j\<close> and sink age \<open>a\<close>.\<close>

definition numberOfInfectiousContactsIJ :: "extern \<Rightarrow> Parameters \<Rightarrow> sim \<Rightarrow> int \<Rightarrow> int \<Rightarrow> nat \<Rightarrow> real" where
  "numberOfInfectiousContactsIJ x p s sinkNodeId sourceNodeId a =
     foldl (\<lambda>acc b.
              acc + (1 - getNpiEffectiveness x sourceNodeId (toInt (now s)) a b)
                      * transmittings s sourceNodeId b * (R0 p / betaScale p) * RHO
                      * contact ! a ! b * sigma ! a / ageBasedFlowReductions ! a)
       0 [0..<numAgeGroups]"

definition numberOfInfectiousContactsJI :: "extern \<Rightarrow> Parameters \<Rightarrow> sim \<Rightarrow> int \<Rightarrow> int \<Rightarrow> nat \<Rightarrow> real" where
  "numberOfInfectiousContactsJI x p s sinkNodeId sourceNodeId a =
     foldl (\<lambda>acc b.
              acc + (1 - getNpiEffectiveness x sinkNodeId (toInt (now s)) a b)
                      * asymptomatics s sourceNodeId b * (R0 p / betaScale p) * RHO
                      * contact ! a ! b * sigma ! a / ageBasedFlowReductions ! b)
       0 [0..<numAgeGroups]"

text \<open>The body of the loop over the source nodes: the exposure probabilities by sink age,
  with the contribution of one source added.\<close>

definition travelSource :: "extern \<Rightarrow> Parameters \<Rightarrow> sim \<Rightarrow> int \<Rightarrow> int \<Rightarrow> real list \<Rightarrow> real list" where
  "travelSource x p s sinkNodeId sourceNodeId unvaccinatedProbabilities =
     (let populationSink = populationNodes s (nodeIdToIndex s sinkNodeId);
          populationSource = populationNodes s (nodeIdToIndex s sourceNodeId);
          travelFractionIJ = getTravel x sinkNodeId sourceNodeId;
          travelFractionJI = getTravel x sourceNodeId sinkNodeId
      in if sinkNodeId \<noteq> sourceNodeId \<and> (0 < travelFractionIJ \<or> 0 < travelFractionJI)
         then map (\<lambda>a. unvaccinatedProbabilities ! a
                         + travelFractionIJ * numberOfInfectiousContactsIJ x p s sinkNodeId sourceNodeId a
                             / populationSource
                         + travelFractionJI * numberOfInfectiousContactsJI x p s sinkNodeId sourceNodeId a
                             / populationSink)
                [0..<numAgeGroups]
         else unvaccinatedProbabilities)"

text \<open>The body of the loops over the strata of the sink node: the binomial draw from
  \<^verbatim>\<open>randGenerator_\<close> and the exposure of that many susceptibles.\<close>

definition travelExpose ::
  "extern \<Rightarrow> Parameters \<Rightarrow> int \<Rightarrow> real list \<Rightarrow> nat \<times> nat \<times> nat \<Rightarrow> sim \<Rightarrow> sim option" where
  "travelExpose x p sinkNodeId unvaccinatedProbabilities arv s =
     (let a = fst arv; r = fst (snd arv); v = snd (snd arv);
          i = nodeIdToIndex s sinkNodeId;
          probability0 = unvaccinatedProbabilities ! a;
          probability =
            (if v = 1 then
               (let ageRiskVaccinatedLatencyPopulationSize = getPopulationInVaccineLatencyPeriod p s sinkNodeId a r;
                    ageRiskVaccinatedPopulationSize = toInt (populations s i a r 1);
                    ageRiskVaccinatedEffectivePopulationSize =
                      ageRiskVaccinatedPopulationSize - ageRiskVaccinatedLatencyPopulationSize;
                    effectiveVaccineEffectiveness =
                      vaccineEffectiveness p * real_of_int ageRiskVaccinatedEffectivePopulationSize
                        / real_of_int ageRiskVaccinatedPopulationSize
                in probability0 * (1 - effectiveVaccineEffectiveness))
             else probability0);
          sinkNumSusceptible = toInt (variables s Susceptible (time s + 1) i a r v + 0.5)
      in if 0 < sinkNumSusceptible then
           (let d = gsl_ran_binomial (randGenerator s) probability sinkNumSusceptible;
                s1 = s\<lparr>randGenerator := snd d\<rparr>
            in map_option fst (expose x p s1 (fst d) sinkNodeId [int a, int r, int v]))
         else Some s)"

definition strataList :: "(nat \<times> nat \<times> nat) list" where
  "strataList =
     concat (map (\<lambda>a. concat (map (\<lambda>r. map (\<lambda>v. (a, r, v)) [0..<numVaccinatedGroups])
                                  [0..<numRiskGroups]))
               [0..<numAgeGroups])"

definition travelSink :: "extern \<Rightarrow> Parameters \<Rightarrow> int \<Rightarrow> sim \<Rightarrow> sim option" where
  "travelSink x p sinkNodeId s =
     (let unvaccinatedProbabilities =
            fold (travelSource x p s sinkNodeId) (nodeIds s) (replicate numAgeGroups 0)
      in forEachOption (travelExpose x p sinkNodeId unvaccinatedProbabilities) strataList s)"

definition travel :: "extern \<Rightarrow> Parameters \<Rightarrow> sim \<Rightarrow> sim option" where
  "travel x p s = forEachOption (travelSink x p) (nodeIds s) s"

section \<open>The daily step\<close>

text \<open>Modelled from the spec: \<^verbatim>\<open>EpidemicSimulation::simulate\<close> of the base class, which is not
  part of the sources at hand: it copies every variable from \<open>time\<close> to \<open>time + 1\<close> and lets
  the stockpile network evolve.\<close>

definition EpidemicSimulation_simulate :: "extern \<Rightarrow> sim \<Rightarrow> sim" where
  "EpidemicSimulation_simulate x s =
     s\<lparr>variables := (\<lambda>var t. if t = time s + 1 then variables s var (time s) else variables s var t),
       stockpileNetwork := evolveStockpiles x (time s) (stockpileNetwork s)\<rparr>"

text \<open>Modelled from the spec: the selection built from the group \<^verbatim>\<open>_ALL_\<close>, whose three
  dimensions are wildcards; the class \<^verbatim>\<open>PriorityGroupSelections\<close>, which expands them, is not
  part of the sources at hand.\<close>

definition priorityGroupSelectionsAll :: PriorityGroupSelections where
  "priorityGroupSelectionsAll =
     \<lparr>priorityGroups = [''_ALL_''],
      stratificationValuesSet = map (\<lambda>(a, r, v). [int a, int r, int v]) strataList,
      ageRiskSet = map (\<lambda>(a, r). (int a, int r)) ageRiskPairs\<rparr>"

text \<open>The reset of the three daily counters at \<open>time + 1\<close>, for all nodes and strata.\<close>

definition resetDaily :: "sim \<Rightarrow> sim" where
  "resetDaily s =
     s\<lparr>variables :=
         (\<lambda>var t. if t = time s + 1
                      \<and> (var = TreatedDaily \<or> var = TreatedIneffectiveDaily \<or> var = VaccinatedDaily)
                   then (\<lambda>i a r v. 0) else variables s var t)\<rparr>"

text \<open>The treatments of the day: the reset, then antivirals and vaccines, each for the
  selections of the parameters and then for the whole population.\<close>

definition applyTreatments :: "Parameters \<Rightarrow> sim \<Rightarrow> sim" where
  "applyTreatments p s =
     (let s1 = resetDaily s;
          s2 = applyAntiviralsToPriorityGroupSelections p (antiviralPriorityGroupSelections p) s1;
          s3 = applyAntiviralsToPriorityGroupSelections p (Some priorityGroupSelectionsAll) s2;
          s4 = applyVaccinesToPriorityGroupSelections p (vaccinePriorityGroupSelections p) s3
      in applyVaccinesToPriorityGroupSelections p (Some priorityGroupSelectionsAll) s4)"

text \<open>The loop \<^verbatim>\<open>while\<close> over the queue of one node: it takes the schedules whose next
  event is due before \<open>time + 1\<close>. It need not terminate, so its result is optional.\<close>

partial_function (option) eventLoop :: "extern \<Rightarrow> Parameters \<Rightarrow> int \<Rightarrow> sim \<Rightarrow> sim option" where
  "eventLoop x p nodeId s =
     (case queueTop (scheduleEventQueues s nodeId) of
        None \<Rightarrow> Some s
      | Some schedule \<Rightarrow>
          (case getTopEvent schedule of
             None \<Rightarrow> Some s
           | Some event \<Rightarrow>
               if eventTime event < real_of_int (time s) + 1 then
                 (let s1 = queuePop s nodeId schedule in
                  if eventQueue schedule \<noteq> [] \<and> \<not> canceled schedule then
                    (let schedule1 = popTopEvent schedule;
                         s2 = s1\<lparr>now := eventTime event\<rparr>
                     in Option.bind (processEvent x p nodeId event s2)
                          (\<lambda>res. eventLoop x p nodeId
                                    (if eventQueue schedule1 \<noteq> []
                                     then queuePush (fst res) nodeId schedule1 else fst res)))
                  else eventLoop x p nodeId s1)
               else Some s))"

definition simulate :: "extern \<Rightarrow> Parameters \<Rightarrow> sim \<Rightarrow> sim option" where
  "simulate x p s =
     (let s1 = EpidemicSimulation_simulate x (s\<lparr>now := real_of_int (time s)\<rparr>);
          s2 = applyTreatments p s1;
          s3 = precompute s2 (time s2 + 1)
      in Option.bind (forEachOption (eventLoop x p) (nodeIds s3) s3)
           (\<lambda>s4. Option.bind (travel x p (s4\<lparr>now := real_of_int (time s4) + 1\<rparr>))
              (\<lambda>s5. let infectious = map (\<lambda>n. getDerivedVarInfected s5 (time s5) n []) (nodeIds s5);
                         population = map (getPopulation x) (nodeIds s5);
                         s6 = s5\<lparr>iliValues := iliValues s5 @ [iliView x infectious population]\<rparr>
                     in Some (s6\<lparr>time := time s6 + 1\<rparr>))))"

section \<open>Example data\<close>

text \<open>A configuration with one node, used to evaluate the model on concrete inputs.\<close>

definition exampleParameters :: Parameters where
  "exampleParameters =
     \<lparr>R0 = 0, betaScale = 1, antiviralEffectiveness = 1, antiviralAdherence = 1,
      antiviralCapacity = 1, vaccineEffectiveness = 1, vaccineAdherence = 1, vaccineCapacity = 1,
      vaccineLatencyPeriod = 2,
      antiviralPriorityGroupSelections = None, vaccinePriorityGroupSelections = None\<rparr>"

definition exampleVariables :: "variable \<Rightarrow> varArray" where
  "exampleVariables =
     (\<lambda>var t i a r v.
        if i = 0 \<and> a = 0 \<and> r = 0 \<and> v = 1 \<and> var = Population then 5
        else if i = 0 \<and> a = 0 \<and> r = 0 \<and> v = 1 \<and> var = VaccinatedDaily \<and> t = 2 then 2
        else if i = 0 \<and> a = 0 \<and> r = 0 \<and> v = 1 \<and> var = VaccinatedDaily \<and> t = 1 then 1
        else 0)"

definition exampleSim :: sim where
  "exampleSim =
     \<lparr>time = 2, now = 2, variables = exampleVariables, nodeIds = [0], nodeIdToIndex = (\<lambda>n. 0),
      stratifications = [[''0-4'', ''5-24'', ''25-49'', ''50-64'', ''65+''], [''low'', ''high''],
                         [''unvaccinated'', ''vaccinated'']],
      stockpileNetwork = (\<lambda>n. None), scheduleEventQueues = (\<lambda>n. []),
      rand = (\<lambda>k. 0), randGenerator = (\<lambda>k. 0), cachedTime = 3,
      populationNodes = (\<lambda>i. 0), populations = (\<lambda>i a r v. 0), iliValues = [], flog = []\<rparr>"

text \<open>Collaborators for the examples: a schedule with one pending transition, no
  interventions, no travel; with a rate that is not positive the exponential draw is not
  finite.\<close>

definition exampleExtern :: extern where
  "exampleExtern =
     \<lparr>newSchedule =
        (\<lambda>t g sv. (\<lparr>state = E, stratificationValues = sv,
                     eventQueue = [\<lparr>initializationTime = t, eventTime = t + 1, eventType = EtoA,
                                    fromStratificationValues = sv, toStratificationValues = []\<rparr>],
                     canceled = False, infectedTMin = t + 1, infectedTMax = t + 2\<rparr>,
                    \<lambda>k. g (Suc k))),
      random_exponential = (\<lambda>rate g. (if 0 < rate then Some (g 0 / rate) else None, \<lambda>k. g (Suc k))),
      isNpiEffective = (\<lambda>n t a b. False), getNpiEffectiveness = (\<lambda>n t a b. 0),
      getTravel = (\<lambda>i j. 0), getPopulation = (\<lambda>n. 0), evolveStockpiles = (\<lambda>t nw. nw),
      iliView = (\<lambda>xs ys. [])\<rparr>"

definition exampleSchedule :: StochasticSEATIRDSchedule where
  "exampleSchedule = fst (newSchedule exampleExtern 2 (\<lambda>k. 0) [0, 0, 0])"

text \<open>A contact event without a risk group in its target, and a well-formed one.\<close>

definition badContactEvent :: StochasticSEATIRDEvent where
  "badContactEvent =
     \<lparr>initializationTime = 2, eventTime = 2.5, eventType = CONTACT,
      fromStratificationValues = [0, 0, 0], toStratificationValues = [0]\<rparr>"



text \<open>Ten susceptibles in the stratum (0, 0, 0) of the node, on day 3.\<close>

definition contactVariables :: "variable \<Rightarrow> varArray" where
  "contactVariables =
     (\<lambda>var t i a r v.
        if i = 0 \<and> a = 0 \<and> r = 0 \<and> v = 0 \<and> (var = Population \<or> var = Susceptible) then 10 else 0)"

definition contactSim :: sim where
  "contactSim =
     exampleSim\<lparr>variables := contactVariables,
       populations := (\<lambda>i a r v. if i = 0 \<and> a = 0 \<and> r = 0 \<and> v = 0 then 10 else 0),
       populationNodes := (\<lambda>i. 10)\<rparr>"

text \<open>Two nodes; at the second, one treatable individual of age group 2 and nobody
  asymptomatic.\<close>

definition travelParameters :: Parameters where
  "travelParameters = exampleParameters\<lparr>R0 := 1\<rparr>"

definition travelSim :: sim where
  "travelSim =
     exampleSim\<lparr>nodeIds := [0, 1], nodeIdToIndex := nat,
       variables := (\<lambda>var t i a r v. if var = Treatable \<and> t = 3 \<and> i = 1 \<and> a = 2 \<and> r = 0 \<and> v = 0
                                       then 1 else 0)\<rparr>"








text \<open>Ten recovered individuals in the stratum (0, 0, 0) of the node and nobody else, without
  a stockpile and with a stockpile of vaccines; and the transition of an exposed individual
  of that stratum.\<close>

definition recoveredVariables :: "variable \<Rightarrow> varArray" where
  "recoveredVariables =
     (\<lambda>var t i a r v.
        if i = 0 \<and> a = 0 \<and> r = 0 \<and> v = 0 \<and> (var = Population \<or> var = Recovered) then 10 else 0)"

definition recoveredSim :: sim where
  "recoveredSim = exampleSim\<lparr>variables := recoveredVariables\<rparr>"


definition transitionEvent :: StochasticSEATIRDEvent where
  "transitionEvent =
     \<lparr>initializationTime = 2, eventTime = 2.5, eventType = EtoA,
      fromStratificationValues = [0, 0, 0], toStratificationValues = []\<rparr>"



section \<open>Notions used in the statements\<close>

text \<open>Two states have the same configuration: the same day, nodes and stratifications.\<close>

definition sameConfig :: "sim \<Rightarrow> sim \<Rightarrow> bool" where
  "sameConfig s s' \<longleftrightarrow>
     time s' = time s \<and> nodeIds s' = nodeIds s \<and> nodeIdToIndex s' = nodeIdToIndex s
       \<and> stratifications s' = stratifications s"

text \<open>The seven disease compartments, and the conservation invariant at a time and a node
  index: the compartments, summed over all strata, make up the population.\<close>

definition isCompartment :: "variable \<Rightarrow> bool" where
  "isCompartment var \<longleftrightarrow>
     var = Susceptible \<or> var = Exposed \<or> var = Asymptomatic \<or> var = Treatable
       \<or> var = Infectious \<or> var = Recovered \<or> var = Deceased"

definition compartmentTotal :: "(variable \<Rightarrow> varArray) \<Rightarrow> int \<Rightarrow> nat \<Rightarrow> real" where
  "compartmentTotal V t i =
     sum3 (\<lambda>a r v. V Susceptible t i a r v + V Exposed t i a r v + V Asymptomatic t i a r v
                     + V Treatable t i a r v + V Infectious t i a r v + V Recovered t i a r v
                     + V Deceased t i a r v)"

definition populationTotal :: "(variable \<Rightarrow> varArray) \<Rightarrow> int \<Rightarrow> nat \<Rightarrow> real" where
  "populationTotal V t i = sum3 (V Population t i)"

definition conserved :: "(variable \<Rightarrow> varArray) \<Rightarrow> int \<Rightarrow> nat \<Rightarrow> bool" where
  "conserved V t i \<longleftrightarrow> compartmentTotal V t i = populationTotal V t i"

text \<open>The writes that the operations make to the population store at the time index \<open>tt\<close>:
  a move between two compartments of one stratum, a count added to one of the treatment
  counters, and the move of a vaccinated group from the unvaccinated to the vaccinated
  stratum, in its compartment and in the population. A store is reached from another by
  moves, or by writes of all three kinds.\<close>

inductive moveSteps :: "int \<Rightarrow> (variable \<Rightarrow> varArray) \<Rightarrow> (variable \<Rightarrow> varArray) \<Rightarrow> bool"
  for tt :: int where
    moveRefl: "moveSteps tt V V"
  | moveStep: "moveSteps tt V V1 \<Longrightarrow> isCompartment fromVar \<Longrightarrow> isCompartment toVar \<Longrightarrow>
       moveSteps tt V (addTo (addTo V1 fromVar tt i a r v (- m)) toVar tt i a r v m)"

inductive storeSteps :: "int \<Rightarrow> (variable \<Rightarrow> varArray) \<Rightarrow> (variable \<Rightarrow> varArray) \<Rightarrow> bool"
  for tt :: int where
    storeRefl: "storeSteps tt V V"
  | storeMove: "storeSteps tt V V1 \<Longrightarrow> isCompartment fromVar \<Longrightarrow> isCompartment toVar \<Longrightarrow>
       storeSteps tt V (addTo (addTo V1 fromVar tt i a r v (- m)) toVar tt i a r v m)"
  | storeCount: "storeSteps tt V V1 \<Longrightarrow> \<not> isCompartment var \<Longrightarrow> var \<noteq> Population \<Longrightarrow>
       storeSteps tt V (addTo V1 var tt i a r v y)"
  | storeVaccinate: "storeSteps tt V V1 \<Longrightarrow> isCompartment c \<Longrightarrow>
       storeSteps tt V
         (addTo (addTo (addTo (addTo V1 c tt i a r 0 (- n)) c tt i a r 1 n)
                   Population tt i a r 0 (- n)) Population tt i a r 1 n)"

text \<open>A full stratum: age, risk and vaccinated index, each in range.\<close>

definition fullStratum :: "int list \<Rightarrow> bool" where
  "fullStratum sv \<longleftrightarrow>
     length sv = 3 \<and> 0 \<le> sv ! 0 \<and> sv ! 0 < int numAgeGroups \<and> 0 \<le> sv ! 1 \<and> sv ! 1 < int numRiskGroups
       \<and> 0 \<le> sv ! 2 \<and> sv ! 2 < int numVaccinatedGroups"

text \<open>What event processing and travel may do to a state: moves between compartments at
  \<open>time + 1\<close>, with configuration and stockpiles kept. What the treatments may do: writes of
  the three kinds at \<open>time + 1\<close>, with configuration kept and no draw from the generator of
  the travel step.\<close>

definition movesOnly :: "sim \<Rightarrow> sim \<Rightarrow> bool" where
  "movesOnly s s' \<longleftrightarrow>
     sameConfig s s' \<and> moveSteps (time s + 1) (variables s) (variables s')
       \<and> stockpileNetwork s' = stockpileNetwork s"

definition treatsOnly :: "sim \<Rightarrow> sim \<Rightarrow> bool" where
  "treatsOnly s s' \<longleftrightarrow>
     sameConfig s s' \<and> storeSteps (time s + 1) (variables s) (variables s')
       \<and> randGenerator s' = randGenerator s \<and> now s' = now s"

text \<open>The three counters of the treatments of a day.\<close>

definition isDaily :: "variable \<Rightarrow> bool" where
  "isDaily var \<longleftrightarrow> var = TreatedDaily \<or> var = TreatedIneffectiveDaily \<or> var = VaccinatedDaily"



section \<open>Vaccine latency and the effectively vaccinated\<close>

lemma latencyLoop_sum:
  "latencyLoop f lo t acc = acc + (\<Sum>d\<in>{max 0 (lo + 1)..t}. f d)"
proof (induction f lo t acc rule: latencyLoop.induct)
  case (1 f lo t acc)
  show ?case
  proof (cases "0 \<le> t \<and> lo < t")
    case True
    then have eq: "{max 0 (lo + 1)..t} = insert t {max 0 (lo + 1)..t - 1}" by auto
    have "latencyLoop f lo t acc = latencyLoop f lo (t - 1) (acc + f t)"
      using True by (subst latencyLoop.simps) simp
    also have "\<dots> = acc + f t + (\<Sum>d\<in>{max 0 (lo + 1)..t - 1}. f d)"
      using 1 True by simp
    finally show ?thesis by (simp add: eq add.assoc)
  next
    case False
    then have "{max 0 (lo + 1)..t} = {}" by auto
    with False show ?thesis by (subst latencyLoop.simps) auto
  qed
qed

lemma sum_days_reindex:
  fixes t L :: int
  shows "(\<Sum>d\<in>{max 0 (t - L + 1)..t}. f d) = (\<Sum>k<nat (min L (t + 1)). f (t - int k))"
proof (rule sum.reindex_bij_witness[where i = "\<lambda>k. t - int k" and j = "\<lambda>d. nat (t - d)"])
qed auto

lemma sel_padded:
  assumes "\<not> (3 \<le> length sv \<and> sv ! 2 \<noteq> 1 \<and> sv ! 2 \<noteq> STRATIFICATIONS_ALL)"
  defines "sv1 \<equiv> (sv @ replicate (3 - length sv) STRATIFICATIONS_ALL)[2 := 1]"
  shows "sel sv1 0 a = sel sv 0 a" "sel sv1 1 r = sel sv 1 r" "sel sv1 2 v = (v = 1)" "sel sv 2 1"
  using assms by (auto simp: sel_def nth_list_update nth_append STRATIFICATIONS_ALL_def)

lemma getValue_padded:
  assumes "\<not> (3 \<le> length sv \<and> sv ! 2 \<noteq> 1 \<and> sv ! 2 \<noteq> STRATIFICATIONS_ALL)"
  shows "getValue s var t n ((sv @ replicate (3 - length sv) STRATIFICATIONS_ALL)[2 := 1]) =
    (\<Sum>a<numAgeGroups. \<Sum>r<numRiskGroups.
       if sel sv 0 a \<and> sel sv 1 r then variables s var t (nodeIdToIndex s n) a r 1 else 0)"
  unfolding getValue_def sum3_def sel_padded[OF assms]
  by (simp add: numVaccinatedGroups_def lessThan_nat_numeral lessThan_Suc cong: if_cong)

lemma sum_days_strata:
  fixes g :: "nat \<Rightarrow> nat \<Rightarrow> nat \<Rightarrow> real"
  shows "(\<Sum>k\<in>K. \<Sum>a<n. \<Sum>r<m. if c a r then g k a r else 0) =
         (\<Sum>a<n. \<Sum>r<m. if c a r then (\<Sum>k\<in>K. g k a r) else 0)"
proof -
  have "(\<Sum>k\<in>K. \<Sum>a<n. \<Sum>r<m. if c a r then g k a r else 0) =
        (\<Sum>a<n. \<Sum>k\<in>K. \<Sum>r<m. if c a r then g k a r else 0)"
    by (rule sum.swap)
  also have "\<dots> = (\<Sum>a<n. \<Sum>r<m. \<Sum>k\<in>K. if c a r then g k a r else 0)"
    by (intro sum.cong refl sum.swap)
  also have "\<dots> = (\<Sum>a<n. \<Sum>r<m. if c a r then (\<Sum>k\<in>K. g k a r) else 0)"
    by (intro sum.cong refl) simp
  finally show ?thesis .
qed

lemma effective_vaccines_sum:
  "getDerivedVarPopulationEffectiveVaccines p s t nodeId sv =
     (\<Sum>a<numAgeGroups. \<Sum>r<numRiskGroups.
        if sel sv 0 a \<and> sel sv 1 r \<and> sel sv 2 1
        then variables s Population t (nodeIdToIndex s nodeId) a r 1
             - (\<Sum>k<nat (min (vaccineLatencyPeriod p) (t + 1)).
                  variables s VaccinatedDaily (t - int k) (nodeIdToIndex s nodeId) a r 1)
        else 0)"
proof (cases "3 \<le> length sv \<and> sv ! 2 \<noteq> 1 \<and> sv ! 2 \<noteq> STRATIFICATIONS_ALL")
  case True
  then have "\<not> sel sv 2 1" by (auto simp: sel_def)
  with True show ?thesis by (simp add: getDerivedVarPopulationEffectiveVaccines_def)
next
  case False
  let ?K = "{..<nat (min (vaccineLatencyPeriod p) (t + 1))}"
  let ?n = "nodeIdToIndex s nodeId"
  let ?sv1 = "(sv @ replicate (3 - length sv) STRATIFICATIONS_ALL)[2 := 1]"
  have s2: "sel sv 2 1" by (rule sel_padded(4)[OF False])
  have lat: "getDerivedVarPopulationInVaccineLatencyPeriod p s t nodeId ?sv1 =
      (\<Sum>a<numAgeGroups. \<Sum>r<numRiskGroups. if sel sv 0 a \<and> sel sv 1 r
         then (\<Sum>k\<in>?K. variables s VaccinatedDaily (t - int k) ?n a r 1) else 0)"
    unfolding getDerivedVarPopulationInVaccineLatencyPeriod_def latencyLoop_sum
      getValue_padded[OF False]
    by (simp only: add_0 sum_days_reindex sum_days_strata)
  have "getDerivedVarPopulationEffectiveVaccines p s t nodeId sv =
      getValue s Population t nodeId ?sv1
        - getDerivedVarPopulationInVaccineLatencyPeriod p s t nodeId ?sv1"
    unfolding getDerivedVarPopulationEffectiveVaccines_def by (simp only: False if_False Let_def)
  also have "\<dots> = (\<Sum>a<numAgeGroups. \<Sum>r<numRiskGroups.
        (if sel sv 0 a \<and> sel sv 1 r then variables s Population t ?n a r 1 else 0)
        - (if sel sv 0 a \<and> sel sv 1 r
           then (\<Sum>k\<in>?K. variables s VaccinatedDaily (t - int k) ?n a r 1) else 0))"
    unfolding lat getValue_padded[OF False] by (simp only: sum_subtractf)
  also have "\<dots> = (\<Sum>a<numAgeGroups. \<Sum>r<numRiskGroups.
        if sel sv 0 a \<and> sel sv 1 r \<and> sel sv 2 1
        then variables s Population t ?n a r 1
             - (\<Sum>k\<in>?K. variables s VaccinatedDaily (t - int k) ?n a r 1)
        else 0)"
    by (intro sum.cong refl) (use s2 in auto)
  finally show ?thesis .
qed

text \<open>
  Claim C8. For a vaccine latency period \<open>L\<close>, the derived variable "vaccinated effective"
  at a time \<open>t\<close>, a node and a stratification vector is the vaccinated population (the
  strata with vaccinated index 1 that the vector selects) minus those vaccinated on the
  days \<open>t - k\<close> for \<open>k = 0, \<dots>, L - 1\<close>, as far as these days exist (\<open>k \<le> t\<close>); with
  \<open>L = 0\<close> nobody is in latency and the whole vaccinated population is effective.
\<close>

theorem effective_vaccines_latency:
  "getDerivedVarPopulationEffectiveVaccines p s t nodeId sv =
     (\<Sum>a<numAgeGroups. \<Sum>r<numRiskGroups.
        if sel sv 0 a \<and> sel sv 1 r \<and> sel sv 2 1
        then variables s Population t (nodeIdToIndex s nodeId) a r 1
             - (\<Sum>k<nat (min (vaccineLatencyPeriod p) (t + 1)).
                  variables s VaccinatedDaily (t - int k) (nodeIdToIndex s nodeId) a r 1)
        else 0)
   \<and> getDerivedVarPopulationEffectiveVaccines (p\<lparr>vaccineLatencyPeriod := 0\<rparr>) s t nodeId sv =
     (\<Sum>a<numAgeGroups. \<Sum>r<numRiskGroups.
        if sel sv 0 a \<and> sel sv 1 r \<and> sel sv 2 1
        then variables s Population t (nodeIdToIndex s nodeId) a r 1 else 0)"
  by (simp add: effective_vaccines_sum cong: if_cong)

theorem effective_vaccines_latency_witness:
  "getDerivedVarPopulationEffectiveVaccines exampleParameters exampleSim 2 0 [0, 0, 1] = 2
   \<and> getDerivedVarPopulationEffectiveVaccines (exampleParameters\<lparr>vaccineLatencyPeriod := 0\<rparr>)
       exampleSim 2 0 [0, 0, 1] = 5"
  using effective_vaccines_latency [of exampleParameters exampleSim 2 0 "[0, 0, 1]"]
  by (simp add: exampleParameters_def exampleSim_def exampleVariables_def sel_def
      numAgeGroups_def numRiskGroups_def STRATIFICATIONS_ALL_def lessThan_nat_numeral lessThan_Suc)

section \<open>Sums over the strata and single strata\<close>

lemma sum_delta3:
  fixes f :: "nat \<Rightarrow> nat \<Rightarrow> nat \<Rightarrow> 'a::comm_monoid_add"
  shows "(\<Sum>a<na. \<Sum>r<nr. \<Sum>v<nv. if a = a0 \<and> r = r0 \<and> v = v0 then f a r v else 0) =
         (if a0 < na \<and> r0 < nr \<and> v0 < nv then f a0 r0 v0 else 0)"
proof -
  have v: "(\<Sum>v<nv. if a = a0 \<and> r = r0 \<and> v = v0 then f a r v else 0) =
           (if a = a0 \<and> r = r0 \<and> v0 < nv then f a r v0 else 0)" for a r
    by (cases "a = a0 \<and> r = r0") (auto simp: sum.delta)
  have r: "(\<Sum>r<nr. if a = a0 \<and> r = r0 \<and> v0 < nv then f a r v0 else 0) =
           (if a = a0 \<and> r0 < nr \<and> v0 < nv then f a r0 v0 else 0)" for a
    by (cases "a = a0 \<and> v0 < nv") (auto simp: sum.delta)
  have a: "(\<Sum>a<na. if a = a0 \<and> r0 < nr \<and> v0 < nv then f a r0 v0 else 0) =
           (if a0 < na \<and> r0 < nr \<and> v0 < nv then f a0 r0 v0 else 0)"
    by (cases "r0 < nr \<and> v0 < nv") (auto simp: sum.delta)
  show ?thesis by (simp only: v r a)
qed

lemma sum3_delta:
  "sum3 (\<lambda>a r v. if a = a0 \<and> r = r0 \<and> v = v0 then f a r v else 0) =
     (if a0 < numAgeGroups \<and> r0 < numRiskGroups \<and> v0 < numVaccinatedGroups then f a0 r0 v0 else 0)"
  unfolding sum3_def by (rule sum_delta3)

lemma sum3_add: "sum3 (\<lambda>a r v. f a r v + g a r v) = sum3 f + sum3 g"
  by (simp add: sum3_def sum.distrib)

lemma sum3_cong: "(\<And>a r v. a < numAgeGroups \<Longrightarrow> r < numRiskGroups \<Longrightarrow> v < numVaccinatedGroups
    \<Longrightarrow> f a r v = g a r v) \<Longrightarrow> sum3 f = sum3 g"
  unfolding sum3_def by (intro sum.cong refl) simp

lemma addTo_apply:
  "addTo V var t i a r v y var' t' i' a' r' v' =
     V var' t' i' a' r' v'
       + (if a' = a \<and> r' = r \<and> v' = v then (if var' = var \<and> t' = t \<and> i' = i then y else 0) else 0)"
  by (simp add: addTo_def)

lemma sum3_addTo:
  "sum3 (addTo V var t i a r v y var' t' i') =
     sum3 (V var' t' i')
       + (if var' = var \<and> t' = t \<and> i' = i \<and> a < numAgeGroups \<and> r < numRiskGroups
             \<and> v < numVaccinatedGroups then y else 0)"
proof -
  have "sum3 (addTo V var t i a r v y var' t' i') =
        sum3 (\<lambda>a' r' v'. V var' t' i' a' r' v'
          + (if a' = a \<and> r' = r \<and> v' = v then (if var' = var \<and> t' = t \<and> i' = i then y else 0) else 0))"
    by (intro sum3_cong) (simp only: addTo_apply)
  also have "\<dots> = sum3 (V var' t' i')
      + sum3 (\<lambda>a' r' v'. if a' = a \<and> r' = r \<and> v' = v
                then (if var' = var \<and> t' = t \<and> i' = i then y else 0) else 0)"
    by (rule sum3_add)
  finally show ?thesis by (simp only: sum3_delta) auto
qed




section \<open>What the parts of an exposure leave unchanged\<close>

lemma sameConfig_refl [simp]: "sameConfig s s"
  by (simp add: sameConfig_def)

lemma sameConfig_trans: "sameConfig s s1 \<Longrightarrow> sameConfig s1 s2 \<Longrightarrow> sameConfig s s2"
  by (simp add: sameConfig_def)

lemma transition_fields:
  "variables (fst (transition s n fromVar toVar nodeId sv)) =
     addTo (addTo (variables s) fromVar (time s + 1) (nodeIdToIndex s nodeId)
              (nat (sv ! 0)) (nat (sv ! 1)) (nat (sv ! 2)) (- moved s n fromVar nodeId sv))
       toVar (time s + 1) (nodeIdToIndex s nodeId) (nat (sv ! 0)) (nat (sv ! 1)) (nat (sv ! 2))
       (moved s n fromVar nodeId sv)"
  "snd (transition s n fromVar toVar nodeId sv) = moved s n fromVar nodeId sv"
  "sameConfig s (fst (transition s n fromVar toVar nodeId sv))"
  "stockpileNetwork (fst (transition s n fromVar toVar nodeId sv)) = stockpileNetwork s"
  "scheduleEventQueues (fst (transition s n fromVar toVar nodeId sv)) = scheduleEventQueues s"
  "rand (fst (transition s n fromVar toVar nodeId sv)) = rand s"
  "randGenerator (fst (transition s n fromVar toVar nodeId sv)) = randGenerator s"
  "now (fst (transition s n fromVar toVar nodeId sv)) = now s"
  by (simp_all add: transition_def Let_def sameConfig_def)

lemma initializeContactEvents_frame:
  assumes "initializeContactEvents x p s sch nodeId sv = Some (sch1, s1)"
  shows "sameConfig s s1 \<and> variables s1 = variables s \<and> stockpileNetwork s1 = stockpileNetwork s
         \<and> randGenerator s1 = randGenerator s \<and> scheduleEventQueues s1 = scheduleEventQueues s
         \<and> now s1 = now s"
  using assms
  by (auto simp: initializeContactEvents_def sameConfig_def split: if_splits Option.bind_splits)

lemma exposeLoop_frame:
  assumes "exposeLoop x p k nodeId sv s = Some s1"
  shows "sameConfig s s1 \<and> variables s1 = variables s \<and> stockpileNetwork s1 = stockpileNetwork s
         \<and> randGenerator s1 = randGenerator s \<and> now s1 = now s
         \<and> length (scheduleEventQueues s1 nodeId) = length (scheduleEventQueues s nodeId) + k
         \<and> (\<forall>n. n \<noteq> nodeId \<longrightarrow> scheduleEventQueues s1 n = scheduleEventQueues s n)"
  using assms
proof (induction k arbitrary: s)
  case 0
  then show ?case by simp
next
  case (Suc k)
  obtain sch g where ns: "newSchedule x (now s) (rand s) sv = (sch, g)" by force
  from Suc.prems ns obtain sch1 s2 where
    ice: "initializeContactEvents x p (s\<lparr>rand := g\<rparr>) sch nodeId sv = Some (sch1, s2)" and
    rest: "exposeLoop x p k nodeId sv (queuePush s2 nodeId sch1) = Some s1"
    by (auto split: Option.bind_splits)
  from initializeContactEvents_frame[OF ice] Suc.IH[OF rest]
  show ?case by (simp add: sameConfig_def queuePush_def)
qed

lemma exposeEntry_fields:
  "sameConfig s (exposeEntry s)" "variables (exposeEntry s) = variables s"
  "stockpileNetwork (exposeEntry s) = stockpileNetwork s"
  "randGenerator (exposeEntry s) = randGenerator s"
  "scheduleEventQueues (exposeEntry s) = scheduleEventQueues s"
  "rand (exposeEntry s) = rand s" "now (exposeEntry s) = now s"
  "time (exposeEntry s) = time s" "nodeIdToIndex (exposeEntry s) = nodeIdToIndex s"
  by (simp_all add: exposeEntry_def sameConfig_def precompute_def)

lemma expose_frame:
  assumes "expose x p s num nodeId sv = Some (s1, n)"
  shows "sameConfig s s1
         \<and> variables s1 =
             addTo (addTo (variables s) Susceptible (time s + 1) (nodeIdToIndex s nodeId)
                      (nat (sv ! 0)) (nat (sv ! 1)) (nat (sv ! 2)) (- moved s num Susceptible nodeId sv))
               Exposed (time s + 1) (nodeIdToIndex s nodeId) (nat (sv ! 0)) (nat (sv ! 1)) (nat (sv ! 2))
               (moved s num Susceptible nodeId sv)
         \<and> n = toInt (moved s num Susceptible nodeId sv)
         \<and> stockpileNetwork s1 = stockpileNetwork s
         \<and> randGenerator s1 = randGenerator s \<and> now s1 = now s
         \<and> length (scheduleEventQueues s1 nodeId) = length (scheduleEventQueues s nodeId) + nat n
         \<and> (\<forall>m. m \<noteq> nodeId \<longrightarrow> scheduleEventQueues s1 m = scheduleEventQueues s m)"
proof -
  let ?s1 = "exposeEntry s"
  let ?tr = "transition ?s1 num Susceptible Exposed nodeId sv"
  have mv: "moved ?s1 num Susceptible nodeId sv = moved s num Susceptible nodeId sv"
    by (simp add: moved_def exposeEntry_fields)
  from assms have n: "n = toInt (snd ?tr)"
    and loop: "exposeLoop x p (nat n) nodeId sv (fst ?tr) = Some s1"
    by (auto simp: expose_def EpidemicSimulation_expose_def Let_def split: prod.splits)
  from exposeLoop_frame[OF loop] n mv
  show ?thesis
    using exposeEntry_fields[of s] transition_fields[of ?s1 num Susceptible Exposed nodeId sv]
    by (simp add: sameConfig_def)
qed


lemma getValue_eqI:
  "variables s' = variables s \<Longrightarrow> nodeIdToIndex s' = nodeIdToIndex s \<Longrightarrow> getValue s' = getValue s"
  by (simp add: getValue_def fun_eq_iff cong: if_cong)

lemma getValue_rand [simp]: "getValue (s\<lparr>rand := g\<rparr>) = getValue s"
  by (rule getValue_eqI) simp_all




section \<open>Rounding\<close>
















section \<open>The example collaborators\<close>

lemma contactLoop_None: "contactLoop x rate tf sv tosv ti None sch g = Some (sch, g)"
  by (subst contactLoop.simps) simp

lemma example_contact_event:
  "contactEventsFor exampleExtern exampleParameters s n sv ar (sch, g) = Some (sch, \<lambda>k. g (Suc k))"
  by (simp add: contactEventsFor_def exampleExtern_def exampleParameters_def Let_def contactLoop_None)

lemma example_contact_events:
  "forEachOption (contactEventsFor exampleExtern exampleParameters s n sv) ars (sch, g)
     = Some (sch, \<lambda>k. g (k + length ars))"
  by (induction ars arbitrary: g) (simp_all add: example_contact_event)

lemma example_newSchedule:
  "newSchedule exampleExtern t g sv =
     (\<lparr>state = E, stratificationValues = sv,
       eventQueue = [\<lparr>initializationTime = t, eventTime = t + 1, eventType = EtoA,
                      fromStratificationValues = sv, toStratificationValues = []\<rparr>],
       canceled = False, infectedTMin = t + 1, infectedTMax = t + 2\<rparr>,
      \<lambda>k. g (Suc k))"
  by (simp add: exampleExtern_def)


section \<open>Writes to the store\<close>

lemma moveSteps_trans: "moveSteps tt V1 V2 \<Longrightarrow> moveSteps tt V V1 \<Longrightarrow> moveSteps tt V V2"
  by (induction rule: moveSteps.induct) (blast intro: moveSteps.intros)+

lemma storeSteps_trans: "storeSteps tt V1 V2 \<Longrightarrow> storeSteps tt V V1 \<Longrightarrow> storeSteps tt V V2"
  by (induction rule: storeSteps.induct) (blast intro: storeSteps.intros)+

lemma moveSteps_storeSteps: "moveSteps tt V V' \<Longrightarrow> storeSteps tt V V'"
  by (induction rule: moveSteps.induct) (blast intro: storeSteps.intros)+

lemma compartmentTotal_addTo:
  "compartmentTotal (addTo V var t i a r v y) t' i' =
     compartmentTotal V t' i'
       + (if isCompartment var \<and> t' = t \<and> i' = i \<and> a < numAgeGroups \<and> r < numRiskGroups
             \<and> v < numVaccinatedGroups then y else 0)"
proof -
  have "compartmentTotal (addTo V var t i a r v y) t' i' =
      sum3 (addTo V var t i a r v y Susceptible t' i') + sum3 (addTo V var t i a r v y Exposed t' i')
      + sum3 (addTo V var t i a r v y Asymptomatic t' i') + sum3 (addTo V var t i a r v y Treatable t' i')
      + sum3 (addTo V var t i a r v y Infectious t' i') + sum3 (addTo V var t i a r v y Recovered t' i')
      + sum3 (addTo V var t i a r v y Deceased t' i')"
    by (simp add: compartmentTotal_def sum3_add)
  also have "\<dots> = compartmentTotal V t' i'
       + (if isCompartment var \<and> t' = t \<and> i' = i \<and> a < numAgeGroups \<and> r < numRiskGroups
             \<and> v < numVaccinatedGroups then y else 0)"
    unfolding sum3_addTo by (cases var) (simp_all add: compartmentTotal_def sum3_add isCompartment_def)
  finally show ?thesis .
qed

lemma populationTotal_addTo:
  "populationTotal (addTo V var t i a r v y) t' i' =
     populationTotal V t' i'
       + (if var = Population \<and> t' = t \<and> i' = i \<and> a < numAgeGroups \<and> r < numRiskGroups
             \<and> v < numVaccinatedGroups then y else 0)"
  by (simp add: populationTotal_def sum3_addTo)

lemma storeSteps_totals:
  assumes "storeSteps tt V V'"
  shows "compartmentTotal V' t i = compartmentTotal V t i \<and> populationTotal V' t i = populationTotal V t i"
  using assms
  by (induction rule: storeSteps.induct)
     (auto simp: compartmentTotal_addTo populationTotal_addTo isCompartment_def numVaccinatedGroups_def)

lemma storeSteps_conserved: "storeSteps tt V V' \<Longrightarrow> conserved V' t i = conserved V t i"
  by (simp add: conserved_def storeSteps_totals)

lemma storeSteps_other_time: "storeSteps tt V V' \<Longrightarrow> t \<noteq> tt \<Longrightarrow> V' var t = V var t"
  by (induction rule: storeSteps.induct) (auto simp: addTo_def fun_eq_iff)

lemma moveSteps_others: "moveSteps tt V V' \<Longrightarrow> \<not> isCompartment var \<Longrightarrow> V' var = V var"
  by (induction rule: moveSteps.induct) (auto simp: addTo_def fun_eq_iff)


section \<open>Event processing and travel only move individuals\<close>

lemma movesOnly_refl [simp]: "movesOnly s s"
  by (simp add: movesOnly_def moveSteps.moveRefl)

lemma movesOnly_trans: "movesOnly s s1 \<Longrightarrow> movesOnly s1 s2 \<Longrightarrow> movesOnly s s2"
  unfolding movesOnly_def sameConfig_def by (auto intro: moveSteps_trans)

lemma movesOnly_same:
  "sameConfig s s' \<Longrightarrow> variables s' = variables s \<Longrightarrow> stockpileNetwork s' = stockpileNetwork s
     \<Longrightarrow> movesOnly s s'"
  by (simp add: movesOnly_def moveSteps.moveRefl)

lemma transition_movesOnly:
  "isCompartment fromVar \<Longrightarrow> isCompartment toVar \<Longrightarrow>
     movesOnly s (fst (transition s n fromVar toVar nodeId sv))"
  unfolding movesOnly_def transition_fields
  by (auto intro: moveSteps.intros simp: transition_fields)

lemma expose_movesOnly:
  assumes "expose x p s num nodeId sv = Some (s1, n)"
  shows "movesOnly s s1 \<and> randGenerator s1 = randGenerator s"
  using expose_frame[OF assms]
  by (auto simp: movesOnly_def isCompartment_def intro!: moveSteps.intros)

lemma contactDispatch_movesOnly:
  assumes "contactDispatch x p nodeId event v s = Some (s1, b)"
  shows "movesOnly s s1 \<and> randGenerator s1 = randGenerator s"
proof -
  have r: "movesOnly s (s\<lparr>rand := g\<rparr>)" for g
    by (rule movesOnly_same) (simp_all add: sameConfig_def)
  from assms show ?thesis
    by (auto simp: contactDispatch_def Let_def split: if_splits
        dest!: expose_movesOnly intro: r movesOnly_trans[OF r])
qed

lemma processEvent_movesOnly:
  assumes "processEvent x p nodeId event s = Some (s1, b)"
  shows "movesOnly s s1 \<and> randGenerator s1 = randGenerator s"
proof (cases "transitionOf (eventType event)")
  case (Some ft)
  then have "isCompartment (fst ft) \<and> isCompartment (snd ft)"
    by (cases "eventType event") (auto simp: isCompartment_def)
  with Some assms show ?thesis
    by (cases ft) (auto simp: processEvent_def transition_movesOnly transition_fields)
next
  case None
  have r: "movesOnly s (s\<lparr>rand := g\<rparr>)" "movesOnly s (s\<lparr>rand := g, rand := g'\<rparr>)"
    "movesOnly s (s\<lparr>flog := l\<rparr>)" for g g' l
    by (rule movesOnly_same; simp add: sameConfig_def)+
  from assms None show ?thesis
    by (auto simp: processEvent_def Let_def split: if_splits
        dest!: contactDispatch_movesOnly intro: movesOnly_trans[OF r(1)] movesOnly_trans[OF r(2)] r)
qed

lemma eventLoop_movesOnly:
  assumes "eventLoop x p nodeId s = Some s1"
  shows "movesOnly s s1 \<and> randGenerator s1 = randGenerator s"
proof (rule eventLoop.raw_induct[where P = "\<lambda>x p nodeId s s1. movesOnly s s1 \<and> randGenerator s1 = randGenerator s"
      and xa = "(((x, p), nodeId), s)" and y = s1, unfolded prod.case], goal_cases)
  case 2
  show ?case by (rule assms)
next
  case (1 eventLoop' x p nodeId s s1)
  have q: "movesOnly s (queuePop s nodeId sch)" "randGenerator (queuePop s nodeId sch) = randGenerator s"
    for sch by (simp_all add: queuePop_def movesOnly_same sameConfig_def)
  show ?case
  proof (cases "queueTop (scheduleEventQueues s nodeId)")
    case None
    with 1(2) show ?thesis by simp
  next
    case (Some schedule)
    show ?thesis
    proof (cases "getTopEvent schedule")
      case None
      with Some 1(2) show ?thesis by simp
    next
      case (Some event)
      note ev = Some
      show ?thesis
      proof (cases "eventTime event < real_of_int (time s) + 1")
        case False
        with \<open>queueTop (scheduleEventQueues s nodeId) = Some schedule\<close> ev 1(2) show ?thesis by simp
      next
        case True
        note due = True
        show ?thesis
        proof (cases "eventQueue schedule \<noteq> [] \<and> \<not> canceled schedule")
          case False
          with \<open>queueTop (scheduleEventQueues s nodeId) = Some schedule\<close> ev due 1(2)
          have "eventLoop' x p nodeId (queuePop s nodeId schedule) = Some s1"
            by (auto simp: Let_def)
          from 1(1)[OF this] q[of schedule] show ?thesis
            by (auto intro: movesOnly_trans)
        next
          case True
          let ?s2 = "(queuePop s nodeId schedule)\<lparr>now := eventTime event\<rparr>"
          from \<open>queueTop (scheduleEventQueues s nodeId) = Some schedule\<close> ev due True 1(2)
          obtain res where pe: "processEvent x p nodeId event ?s2 = Some res"
            and rest: "eventLoop' x p nodeId
                 (if eventQueue (popTopEvent schedule) \<noteq> []
                  then queuePush (fst res) nodeId (popTopEvent schedule) else fst res) = Some s1"
            by (auto simp: Let_def split: Option.bind_splits)
          have a: "movesOnly s ?s2 \<and> randGenerator ?s2 = randGenerator s"
            by (simp add: queuePop_def movesOnly_same sameConfig_def)
          from pe have b: "movesOnly ?s2 (fst res) \<and> randGenerator (fst res) = randGenerator ?s2"
            using processEvent_movesOnly[of x p nodeId event ?s2 "fst res" "snd res"] by simp
          have c: "movesOnly (fst res) (if eventQueue (popTopEvent schedule) \<noteq> []
                  then queuePush (fst res) nodeId (popTopEvent schedule) else fst res)
               \<and> randGenerator (if eventQueue (popTopEvent schedule) \<noteq> []
                  then queuePush (fst res) nodeId (popTopEvent schedule) else fst res) = randGenerator (fst res)"
            by (simp add: queuePush_def movesOnly_same sameConfig_def)
          from 1(1)[OF rest] a b c show ?thesis
            by (metis movesOnly_trans)
        qed
      qed
    qed
  qed
qed

lemma forEachOption_rel:
  assumes step: "\<And>y a b. y \<in> set ys \<Longrightarrow> f y a = Some b \<Longrightarrow> Rel a b"
    and refl: "\<And>a. Rel a a" and trans: "\<And>a b c. Rel a b \<Longrightarrow> Rel b c \<Longrightarrow> Rel a c"
  shows "forEachOption f ys a = Some b \<Longrightarrow> Rel a b"
  using step
proof (induction ys arbitrary: a)
  case Nil
  then show ?case by (simp add: refl)
next
  case (Cons y ys)
  from Cons.prems(1) obtain a1 where a1: "f y a = Some a1" "forEachOption f ys a1 = Some b"
    by (auto split: Option.bind_splits)
  have "Rel a a1" by (rule Cons.prems(2)[OF _ a1(1)]) simp
  moreover have "Rel a1 b" by (rule Cons.IH[OF a1(2)]) (use Cons.prems(2) in auto)
  ultimately show ?case by (rule trans)
qed


lemma fold_rel:
  assumes step: "\<And>y a. y \<in> set ys \<Longrightarrow> Rel a (f y a)"
    and refl: "\<And>a. Rel a a" and trans: "\<And>a b c. Rel a b \<Longrightarrow> Rel b c \<Longrightarrow> Rel a c"
  shows "Rel a (fold f ys a)"
  using step
proof (induction ys arbitrary: a)
  case Nil
  then show ?case by (simp add: refl)
next
  case (Cons y ys)
  have "Rel a (f y a)" by (rule Cons.prems) simp
  moreover have "Rel (f y a) (fold f ys (f y a))" by (rule Cons.IH) (use Cons.prems in auto)
  ultimately show ?case by (auto intro: trans)
qed

lemma travelExpose_movesOnly:
  assumes "travelExpose x p sinkNodeId probs arv s = Some s1"
  shows "movesOnly s s1"
proof -
  have r: "movesOnly s (s\<lparr>randGenerator := g\<rparr>)" for g
    by (rule movesOnly_same) (simp_all add: sameConfig_def)
  from assms show ?thesis
    by (auto simp: travelExpose_def Let_def split: if_splits
        dest!: expose_movesOnly intro: movesOnly_trans[OF r])
qed

lemma travelSink_movesOnly: "travelSink x p sinkNodeId s = Some s1 \<Longrightarrow> movesOnly s s1"
  unfolding travelSink_def Let_def
  by (erule forEachOption_rel[rotated 3]) (auto intro: travelExpose_movesOnly movesOnly_trans)

lemma travel_movesOnly: "travel x p s = Some s1 \<Longrightarrow> movesOnly s s1"
  unfolding travel_def
  by (erule forEachOption_rel[rotated 3]) (auto intro: travelSink_movesOnly movesOnly_trans)

lemma eventLoops_movesOnly:
  "forEachOption (eventLoop x p) ns s = Some s1 \<Longrightarrow> movesOnly s s1 \<and> randGenerator s1 = randGenerator s"
  by (erule forEachOption_rel[rotated 3]) (auto dest: eventLoop_movesOnly intro: movesOnly_trans)

section \<open>The treatments write at the new day only\<close>

lemma treatsOnly_refl [simp]: "treatsOnly s s"
  by (simp add: treatsOnly_def storeSteps.storeRefl)

lemma treatsOnly_trans: "treatsOnly s s1 \<Longrightarrow> treatsOnly s1 s2 \<Longrightarrow> treatsOnly s s2"
  unfolding treatsOnly_def sameConfig_def by (auto intro: storeSteps_trans)

lemma treatsOnly_same:
  "sameConfig s s' \<Longrightarrow> variables s' = variables s \<Longrightarrow> randGenerator s' = randGenerator s
     \<Longrightarrow> now s' = now s \<Longrightarrow> treatsOnly s s'"
  by (simp add: treatsOnly_def storeSteps.storeRefl)

lemma treatStratum_variables:
  "variables (fst (treatStratum p nodeId tot used sv0 (s, loc))) =
     (if treatableOf s nodeId sv0 \<le> 0 \<or> numberTreatedOf p s nodeId tot used sv0 \<le> 0
      then variables s
      else
        (let t = time s + 1; i = nodeIdToIndex s nodeId;
             a = nat (sv0 ! 0); r = nat (sv0 ! 1); v = nat (sv0 ! 2);
             nT = numberTreatedOf p s nodeId tot used sv0;
             nE = toInt (toDouble (antiviralEffectiveness p * toFloat (real_of_int nT)));
             m = moved s nE Treatable nodeId [sv0 ! 0, sv0 ! 1, sv0 ! 2]
         in addTo (addTo (addTo (addTo (addTo (variables s) Treatable t i a r v (- m)) Recovered t i a r v m)
                     TreatedDaily t i a r v (real_of_int nT))
                     TreatedIneffectiveDaily t i a r v (real_of_int (nT - nE)))
              Treated t i a r v (real_of_int nT)))"
  using transition_fields(3)[of s]
  by (simp add: treatStratum_def Let_def transition_fields sameConfig_def)

lemma treatStratum_frame:
  "sameConfig (fst sl) (fst (treatStratum p nodeId tot used sv0 sl))
   \<and> stockpileNetwork (fst (treatStratum p nodeId tot used sv0 sl)) = stockpileNetwork (fst sl)
   \<and> scheduleEventQueues (fst (treatStratum p nodeId tot used sv0 sl)) = scheduleEventQueues (fst sl)
   \<and> rand (fst (treatStratum p nodeId tot used sv0 sl)) = rand (fst sl)
   \<and> randGenerator (fst (treatStratum p nodeId tot used sv0 sl)) = randGenerator (fst sl)
   \<and> now (fst (treatStratum p nodeId tot used sv0 sl)) = now (fst sl)"
  using transition_fields(3)[of "fst sl"]
  by (simp add: treatStratum_def Let_def transition_fields sameConfig_def)

lemma treatStratum_treatsOnly: "treatsOnly (fst sl) (fst (treatStratum p nodeId tot used sv0 sl))"
proof -
  obtain s loc where sl: "sl = (s, loc)" by (cases sl)
  have c: "\<not> isCompartment TreatedDaily" "\<not> isCompartment TreatedIneffectiveDaily"
    "\<not> isCompartment Treated" "isCompartment Treatable" "isCompartment Recovered"
    by (simp_all add: isCompartment_def)
  have "storeSteps (time s + 1) (variables s) (variables (fst (treatStratum p nodeId tot used sv0 (s, loc))))"
    unfolding treatStratum_variables Let_def
    by (auto intro!: storeSteps.storeCount storeSteps.storeMove storeSteps.storeRefl simp: c)
  with treatStratum_frame[of sl p nodeId tot used sv0] show ?thesis
    by (simp add: treatsOnly_def sl)
qed

lemma fold_treatStratum_treatsOnly:
  "treatsOnly (fst sl) (fst (fold (treatStratum p nodeId tot used) svs sl))"
  by (rule fold_rel[where Rel = "\<lambda>a b. treatsOnly (fst a) (fst b)"])
     (auto intro: treatStratum_treatsOnly treatsOnly_trans)

lemma treatNode_treatsOnly: "treatsOnly s (treatNode p g nodeId s)"
proof -
  have a: "treatsOnly s (s\<lparr>stockpileNetwork := nw\<rparr>)" for nw
    by (rule treatsOnly_same) (simp_all add: sameConfig_def)
  have b: "treatsOnly s1 (warnUnless ok msg s1)" for s1 ok msg
    by (rule treatsOnly_same) (simp_all add: sameConfig_def warnUnless_def)
  have c: "treatsOnly s1 (s1\<lparr>scheduleEventQueues := q, rand := g\<rparr>)" for s1 q g
    by (rule treatsOnly_same) (simp_all add: sameConfig_def)
  have d: "treatsOnly s1 (fst (fold (treatStratum p nodeId tot used) svs (s1, l)))" for s1 tot used svs l
    using fold_treatStratum_treatsOnly[of "(s1, l)"] by simp
  show ?thesis
  proof (cases "treatNode p g nodeId s = s")
    case True
    then show ?thesis by simp
  next
    case False
    then obtain nw tot used l ok1 m1 q gg ok2 m2 where
      "treatNode p g nodeId s =
         warnUnless ok2 m2
           ((warnUnless ok1 m1 (fst (fold (treatStratum p nodeId tot used) (stratificationValuesSet g)
                (s\<lparr>stockpileNetwork := nw\<rparr>, l))))\<lparr>scheduleEventQueues := q, rand := gg\<rparr>)"
      unfolding treatNode_def Let_def by (auto split: option.splits if_splits)
    moreover have "treatsOnly s (fst (fold (treatStratum p nodeId tot used) (stratificationValuesSet g)
                (s\<lparr>stockpileNetwork := nw\<rparr>, l)))"
      by (rule treatsOnly_trans[OF a d])
    then have "treatsOnly s (warnUnless ok1 m1 (fst (fold (treatStratum p nodeId tot used)
                (stratificationValuesSet g) (s\<lparr>stockpileNetwork := nw\<rparr>, l))))"
      by (rule treatsOnly_trans[OF _ b])
    then have "treatsOnly s ((warnUnless ok1 m1 (fst (fold (treatStratum p nodeId tot used)
                (stratificationValuesSet g) (s\<lparr>stockpileNetwork := nw\<rparr>, l))))
                \<lparr>scheduleEventQueues := q, rand := gg\<rparr>)"
      by (rule treatsOnly_trans[OF _ c])
    then have "treatsOnly s (warnUnless ok2 m2 ((warnUnless ok1 m1 (fst (fold (treatStratum p nodeId tot used)
                (stratificationValuesSet g) (s\<lparr>stockpileNetwork := nw\<rparr>, l))))
                \<lparr>scheduleEventQueues := q, rand := gg\<rparr>))"
      by (rule treatsOnly_trans[OF _ b])
    ultimately show ?thesis by simp
  qed
qed

lemma applyAntivirals_treatsOnly:
  "treatsOnly s (applyAntiviralsToPriorityGroupSelections p sel0 s)"
proof -
  have l: "treatsOnly s (s\<lparr>flog := l\<rparr>)" for l
    by (rule treatsOnly_same) (simp_all add: sameConfig_def)
  have f: "treatsOnly s (fold (treatNode p g) ns s)" for g ns
    by (rule fold_rel) (auto intro: treatNode_treatsOnly treatsOnly_trans)
  show ?thesis
    by (auto simp: applyAntiviralsToPriorityGroupSelections_def l f split: option.splits)
qed

lemma compartments_isCompartment: "c < length compartments \<Longrightarrow> isCompartment (compartments ! c)"
proof -
  assume "c < length compartments"
  then have "c = 0 \<or> c = 1 \<or> c = 2 \<or> c = 3 \<or> c = 4 \<or> c = 5"
    by (simp add: compartments_def) linarith
  then show ?thesis
    by (elim disjE) (simp_all add: compartments_def isCompartment_def)
qed

lemma vaccinateStratum_variables:
  "variables (fst (vaccinateStratum p nodeId tot used (c, sv0) (s, loc))) =
     (if toFloat (getValue s Population (time s + 1) nodeId [sv0 ! 0, sv0 ! 1, 0]) \<le> 0
         \<or> numberVaccinatedOf p s nodeId tot used c sv0 \<le> 0
      then variables s
      else
        (let t = time s + 1; i = nodeIdToIndex s nodeId;
             a = nat (sv0 ! 0); r = nat (sv0 ! 1);
             nV = real_of_int (numberVaccinatedOf p s nodeId tot used c sv0)
         in addTo (addTo (addTo (addTo (addTo (variables s) (compartments ! c) t i a r 0 (- nV))
                     (compartments ! c) t i a r 1 nV)
                     Population t i a r 0 (- nV))
                     Population t i a r 1 nV)
              VaccinatedDaily t i a r 1 nV))"
  by (simp add: vaccinateStratum_def Let_def)

lemma vaccinateStratum_frame:
  "sameConfig (fst sl) (fst (vaccinateStratum p nodeId tot used csv sl))
   \<and> stockpileNetwork (fst (vaccinateStratum p nodeId tot used csv sl)) = stockpileNetwork (fst sl)
   \<and> scheduleEventQueues (fst (vaccinateStratum p nodeId tot used csv sl)) = scheduleEventQueues (fst sl)
   \<and> rand (fst (vaccinateStratum p nodeId tot used csv sl)) = rand (fst sl)
   \<and> randGenerator (fst (vaccinateStratum p nodeId tot used csv sl)) = randGenerator (fst sl)
   \<and> now (fst (vaccinateStratum p nodeId tot used csv sl)) = now (fst sl)"
  by (simp add: vaccinateStratum_def Let_def sameConfig_def)

lemma vaccinateStratum_treatsOnly:
  assumes "fst csv < length compartments"
  shows "treatsOnly (fst sl) (fst (vaccinateStratum p nodeId tot used csv sl))"
proof -
  obtain s loc where sl: "sl = (s, loc)" by (cases sl)
  obtain c sv0 where csv: "csv = (c, sv0)" by (cases csv)
  have "\<not> isCompartment VaccinatedDaily" by (simp add: isCompartment_def)
  moreover have "isCompartment (compartments ! c)"
    using assms by (simp add: csv compartments_isCompartment)
  ultimately have c: "\<not> isCompartment VaccinatedDaily" "isCompartment (compartments ! c)" .
  have w: "storeSteps tt V
      (addTo (addTo (addTo (addTo (addTo V (compartments ! c) tt i a r 0 (- n)) (compartments ! c) tt i a r 1 n)
          Population tt i a r 0 (- n)) Population tt i a r 1 n) VaccinatedDaily tt i a r 1 n)" for tt V i a r n
    by (rule storeSteps.storeCount[OF storeSteps.storeVaccinate[OF storeSteps.storeRefl c(2)]])
       (simp_all add: isCompartment_def)
  have "storeSteps (time s + 1) (variables s) (variables (fst (vaccinateStratum p nodeId tot used (c, sv0) (s, loc))))"
    unfolding vaccinateStratum_variables Let_def
    by (simp add: w storeSteps.storeRefl del: One_nat_def)
  with vaccinateStratum_frame[of sl p nodeId tot used csv] show ?thesis
    by (simp add: treatsOnly_def sl csv)
qed

lemma fold_vaccinateStratum_treatsOnly:
  assumes "\<And>csv. csv \<in> set csvs \<Longrightarrow> fst csv < length compartments"
  shows "treatsOnly (fst sl) (fst (fold (vaccinateStratum p nodeId tot used) csvs sl))"
  by (rule fold_rel[where Rel = "\<lambda>a b. treatsOnly (fst a) (fst b)"])
     (auto intro: vaccinateStratum_treatsOnly treatsOnly_trans dest: assms)

lemma vaccinateNode_treatsOnly: "treatsOnly s (vaccinateNode p g nodeId s)"
proof -
  have a: "treatsOnly s (s\<lparr>stockpileNetwork := nw\<rparr>)" for nw
    by (rule treatsOnly_same) (simp_all add: sameConfig_def)
  have b: "treatsOnly s1 (warnUnless ok msg s1)" for s1 ok msg
    by (rule treatsOnly_same) (simp_all add: sameConfig_def warnUnless_def)
  have c: "treatsOnly s1 (s1\<lparr>scheduleEventQueues := q, rand := gg\<rparr>)" for s1 q gg
    by (rule treatsOnly_same) (simp_all add: sameConfig_def)
  let ?csvs = "concat (map (\<lambda>c. map (\<lambda>sv. (c, sv)) (getStratificationValuesSet2 g STRATIFICATIONS_ALL))
                        [0..<length compartments])"
  have d: "treatsOnly s1 (fst (fold (vaccinateStratum p nodeId tot used) ?csvs (s1, l)))" for s1 tot used l
  proof -
    have "treatsOnly (fst (s1, l)) (fst (fold (vaccinateStratum p nodeId tot used) ?csvs (s1, l)))"
      by (rule fold_vaccinateStratum_treatsOnly) auto
    then show ?thesis by simp
  qed
  show ?thesis
  proof (cases "vaccinateNode p g nodeId s = s")
    case True
    then show ?thesis by simp
  next
    case False
    then obtain nw tot used l ok1 m1 q gg where
      "vaccinateNode p g nodeId s =
         (warnUnless ok1 m1 (fst (fold (vaccinateStratum p nodeId tot used) ?csvs
                (s\<lparr>stockpileNetwork := nw\<rparr>, l))))\<lparr>scheduleEventQueues := q, rand := gg\<rparr>"
      unfolding vaccinateNode_def Let_def by (auto split: option.splits if_splits)
    moreover have "treatsOnly s (fst (fold (vaccinateStratum p nodeId tot used) ?csvs
                (s\<lparr>stockpileNetwork := nw\<rparr>, l)))"
      by (rule treatsOnly_trans[OF a d])
    then have "treatsOnly s (warnUnless ok1 m1 (fst (fold (vaccinateStratum p nodeId tot used) ?csvs
                (s\<lparr>stockpileNetwork := nw\<rparr>, l))))"
      by (rule treatsOnly_trans[OF _ b])
    then have "treatsOnly s ((warnUnless ok1 m1 (fst (fold (vaccinateStratum p nodeId tot used) ?csvs
                (s\<lparr>stockpileNetwork := nw\<rparr>, l))))\<lparr>scheduleEventQueues := q, rand := gg\<rparr>)"
      by (rule treatsOnly_trans[OF _ c])
    ultimately show ?thesis by simp
  qed
qed

lemma applyVaccines_treatsOnly:
  "treatsOnly s (applyVaccinesToPriorityGroupSelections p sel0 s)"
proof -
  have l: "treatsOnly s (s\<lparr>flog := l\<rparr>)" for l
    by (rule treatsOnly_same) (simp_all add: sameConfig_def)
  have f: "treatsOnly s (fold (vaccinateNode p g) ns s)" for g ns
    by (rule fold_rel) (auto intro: vaccinateNode_treatsOnly treatsOnly_trans)
  show ?thesis
    by (auto simp: applyVaccinesToPriorityGroupSelections_def l f split: option.splits)
qed


section \<open>The daily step\<close>

lemma resetDaily_fields:
  "sameConfig s (resetDaily s)" "randGenerator (resetDaily s) = randGenerator s"
  "stockpileNetwork (resetDaily s) = stockpileNetwork s" "time (resetDaily s) = time s"
  "isCompartment var \<or> var = Population \<or> var = Treated \<Longrightarrow> variables (resetDaily s) var = variables s var"
  "t \<noteq> time s + 1 \<Longrightarrow> variables (resetDaily s) var t = variables s var t"
  by (auto simp: resetDaily_def sameConfig_def isCompartment_def)

lemma resetDaily_totals:
  "compartmentTotal (variables (resetDaily s)) t i = compartmentTotal (variables s) t i"
  "populationTotal (variables (resetDaily s)) t i = populationTotal (variables s) t i"
  by (simp_all add: compartmentTotal_def populationTotal_def resetDaily_fields(5) isCompartment_def)

lemma applyTreatments_treatsOnly: "treatsOnly (resetDaily s) (applyTreatments p s)"
proof -
  let ?s2 = "applyAntiviralsToPriorityGroupSelections p (antiviralPriorityGroupSelections p) (resetDaily s)"
  let ?s3 = "applyAntiviralsToPriorityGroupSelections p (Some priorityGroupSelectionsAll) ?s2"
  let ?s4 = "applyVaccinesToPriorityGroupSelections p (vaccinePriorityGroupSelections p) ?s3"
  have a: "treatsOnly (resetDaily s) ?s2" by (rule applyAntivirals_treatsOnly)
  have b: "treatsOnly ?s2 ?s3" by (rule applyAntivirals_treatsOnly)
  have c: "treatsOnly ?s3 ?s4" by (rule applyVaccines_treatsOnly)
  have d: "treatsOnly ?s4 (applyVaccinesToPriorityGroupSelections p (Some priorityGroupSelectionsAll) ?s4)"
    by (rule applyVaccines_treatsOnly)
  show ?thesis
    unfolding applyTreatments_def Let_def
    by (rule treatsOnly_trans[OF treatsOnly_trans[OF treatsOnly_trans[OF a b] c] d])
qed

lemma treatsOnly_conserved: "treatsOnly s s' \<Longrightarrow> conserved (variables s') t i = conserved (variables s) t i"
  by (auto simp: treatsOnly_def dest: storeSteps_conserved)

lemma movesOnly_conserved: "movesOnly s s' \<Longrightarrow> conserved (variables s') t i = conserved (variables s) t i"
  by (auto simp: movesOnly_def dest: storeSteps_conserved[OF moveSteps_storeSteps])

lemma applyAntivirals_conserved:
  "conserved (variables (applyAntiviralsToPriorityGroupSelections p sel0 s)) t i = conserved (variables s) t i"
  by (rule treatsOnly_conserved[OF applyAntivirals_treatsOnly])

lemma applyVaccines_conserved:
  "conserved (variables (applyVaccinesToPriorityGroupSelections p sel0 s)) t i = conserved (variables s) t i"
  by (rule treatsOnly_conserved[OF applyVaccines_treatsOnly])

lemma applyTreatments_conserved:
  "conserved (variables (applyTreatments p s)) t i = conserved (variables (resetDaily s)) t i"
  by (rule treatsOnly_conserved[OF applyTreatments_treatsOnly])

text \<open>The parts of a completed daily step.\<close>

lemma simulate_parts:
  assumes "simulate x p s = Some s'"
  obtains s1 s2 s4 s5 where
    "s1 = EpidemicSimulation_simulate x (s\<lparr>now := real_of_int (time s)\<rparr>)"
    "s2 = applyTreatments p s1"
    "forEachOption (eventLoop x p) (nodeIds s2) (precompute s2 (time s2 + 1)) = Some s4"
    "travel x p (s4\<lparr>now := real_of_int (time s4) + 1\<rparr>) = Some s5"
    "variables s' = variables s5" "time s' = time s5 + 1"
  using assms unfolding simulate_def Let_def
  by (auto split: Option.bind_splits simp: precompute_def)

lemma simulate_conserved:
  assumes "simulate x p s = Some s'" and all: "\<And>t i. conserved (variables s) t i"
  shows "conserved (variables s') t i"
proof -
  from assms(1) obtain s1 s2 s4 s5 where
    s1: "s1 = EpidemicSimulation_simulate x (s\<lparr>now := real_of_int (time s)\<rparr>)" and
    s2: "s2 = applyTreatments p s1" and
    s4: "forEachOption (eventLoop x p) (nodeIds s2) (precompute s2 (time s2 + 1)) = Some s4" and
    s5: "travel x p (s4\<lparr>now := real_of_int (time s4) + 1\<rparr>) = Some s5" and
    s': "variables s' = variables s5"
    by (rule simulate_parts)
  have c1: "conserved (variables s1) t i"
    using all[of t i] all[of "time s" i]
    by (simp add: s1 EpidemicSimulation_simulate_def conserved_def compartmentTotal_def populationTotal_def)
  then have "conserved (variables (resetDaily s1)) t i"
    by (simp add: conserved_def resetDaily_totals)
  then have c2: "conserved (variables s2) t i"
    by (simp add: s2 applyTreatments_conserved)
  have "movesOnly (precompute s2 (time s2 + 1)) s4"
    using eventLoops_movesOnly[OF s4] by simp
  from movesOnly_conserved[OF this, of t i] c2 have c4: "conserved (variables s4) t i"
    by (simp add: precompute_def)
  from movesOnly_conserved[OF travel_movesOnly[OF s5], of t i] c4 show ?thesis
    by (simp add: s')
qed


section \<open>Violated preconditions\<close>

text \<open>
  Claim C9. A \<^verbatim>\<open>CONTACT\<close> event whose target stratification does not have exactly two values
  makes \<^verbatim>\<open>processEvent\<close> log an error and return \<open>False\<close>; contact-event initialization with
  stratification dimensions other than (5, 2, 2) logs an error and returns the schedule as
  it was. In both cases the state after the operation is the state before it with the
  error message appended to the log: population store, stockpiles, queues and generators
  are untouched.
\<close>

theorem precondition_violation_atomic:
  "(eventType event = CONTACT \<and> length (toStratificationValues event) \<noteq> 2 \<longrightarrow>
      processEvent x p nodeId event s =
        Some (s\<lparr>flog := flog s @ [(LOG_ERROR, ''incorrect event.toStratificationValues'')]\<rparr>, False))
   \<and> (length (stratifications s ! 0) \<noteq> numAgeGroups
        \<or> length (stratifications s ! 1) \<noteq> numRiskGroups
        \<or> length (stratifications s ! 2) \<noteq> numVaccinatedGroups \<longrightarrow>
      initializeContactEvents x p s sch nodeId sv =
        Some (sch, s\<lparr>flog := flog s @ [(LOG_ERROR, ''wrong number of stratifications'')]\<rparr>))"
  by (simp add: processEvent_def initializeContactEvents_def)

theorem precondition_violation_atomic_witness:
  "processEvent exampleExtern exampleParameters 0 badContactEvent exampleSim =
        Some (exampleSim\<lparr>flog := [(LOG_ERROR, ''incorrect event.toStratificationValues'')]\<rparr>, False)
   \<and> initializeContactEvents exampleExtern exampleParameters (exampleSim\<lparr>stratifications := [[], [], []]\<rparr>)
        exampleSchedule 0 [0, 0, 0] =
        Some (exampleSchedule, exampleSim\<lparr>stratifications := [[], [], []],
                flog := [(LOG_ERROR, ''wrong number of stratifications'')]\<rparr>)"
  using precondition_violation_atomic [where event = badContactEvent and x = exampleExtern
      and p = exampleParameters and nodeId = 0 and s = exampleSim]
    precondition_violation_atomic [where s = "exampleSim\<lparr>stratifications := [[], [], []]\<rparr>"
      and x = exampleExtern and p = exampleParameters and sch = exampleSchedule and nodeId = 0
      and sv = "[0, 0, 0]"]
  by (simp add: badContactEvent_def exampleSim_def numAgeGroups_def)

section \<open>Dispatch of a contact\<close>



section \<open>The contact sums of the travel step\<close>

lemma foldl_add_sum:
  fixes f :: "nat \<Rightarrow> real"
  shows "foldl (\<lambda>acc b. acc + f b) z [0..<n] = z + (\<Sum>b<n. f b)"
  by (induction n) simp_all

lemma getValue_age:
  "getValue s var t n [int b] =
     (if b < numAgeGroups
      then (\<Sum>r<numRiskGroups. \<Sum>v<numVaccinatedGroups. variables s var t (nodeIdToIndex s n) b r v)
      else 0)"
proof -
  have "getValue s var t n [int b] =
      (\<Sum>a<numAgeGroups. if a = b
         then (\<Sum>r<numRiskGroups. \<Sum>v<numVaccinatedGroups. variables s var t (nodeIdToIndex s n) a r v)
         else 0)"
    unfolding getValue_def sum3_def
    by (intro sum.cong refl) (auto simp: sel_def STRATIFICATIONS_ALL_def)
  then show ?thesis by (simp add: sum.delta)
qed

lemma travelSim_counts:
  "asymptomatics travelSim 1 b = 0" "transmittings travelSim 1 b = (if b = 2 then 1 else 0)"
  by (simp_all add: transmittings_def asymptomatics_def getValue_age travelSim_def exampleSim_def
      numAgeGroups_def numRiskGroups_def numVaccinatedGroups_def lessThan_nat_numeral lessThan_Suc)


text \<open>
  Claim C3, as amended. For a sink node \<open>i\<close>, a source node \<open>j\<close> and a sink age \<open>a\<close>, the sum for
  the direction from \<open>i\<close> to \<open>j\<close> runs over the partner age \<open>b\<close> with the term
  \<open>(1 - npi) \<cdot> transmitting(j, b) \<cdot> \<beta> \<cdot> \<rho> \<cdot> C[a, b] \<cdot> \<sigma>[a] / reduction[a]\<close>, where the intervention is
  taken at the source node and \<open>transmitting\<close> counts the asymptomatic, treatable and
  infectious of age \<open>b\<close> there; the sum for the direction from \<open>j\<close> to \<open>i\<close> has the term
  \<open>(1 - npi) \<cdot> asymptomatic(j, b) \<cdot> \<beta> \<cdot> \<rho> \<cdot> C[a, b] \<cdot> \<sigma>[a] / reduction[b]\<close>, with the intervention taken
  at the sink node and only the asymptomatic of the source node counted. Here \<open>\<rho> = 0.39\<close>
  and the reductions by age are 10, 2, 1, 1, 2.
\<close>

theorem travel_contact_sums:
  "numberOfInfectiousContactsIJ x p s sinkNodeId sourceNodeId a =
     (\<Sum>b<numAgeGroups.
        (1 - getNpiEffectiveness x sourceNodeId (toInt (now s)) a b)
          * (getValue s Asymptomatic (time s + 1) sourceNodeId [int b]
              + getValue s Treatable (time s + 1) sourceNodeId [int b]
              + getValue s Infectious (time s + 1) sourceNodeId [int b])
          * (R0 p / betaScale p) * (39 / 100) * contact ! a ! b * sigma ! a / [10, 2, 1, 1, 2] ! a)
   \<and> numberOfInfectiousContactsJI x p s sinkNodeId sourceNodeId a =
     (\<Sum>b<numAgeGroups.
        (1 - getNpiEffectiveness x sinkNodeId (toInt (now s)) a b)
          * getValue s Asymptomatic (time s + 1) sourceNodeId [int b]
          * (R0 p / betaScale p) * (39 / 100) * contact ! a ! b * sigma ! a / [10, 2, 1, 1, 2] ! b)"
  by (simp add: numberOfInfectiousContactsIJ_def numberOfInfectiousContactsJI_def foldl_add_sum
      transmittings_def asymptomatics_def RHO_def ageBasedFlowReductions_def)


text \<open>The claim as first stated, with the transmitting count in both sums, fails: with one
  treatable and no asymptomatic individual at the source node, the sum for the direction
  from \<open>j\<close> to \<open>i\<close> is 0, while the stated formula is positive whichever age indexes the
  reduction and whichever node the intervention is taken at.\<close>

theorem travel_contact_sums_counterexample:
  "numberOfInfectiousContactsJI exampleExtern travelParameters travelSim 0 1 2 = 0
   \<and> 0 < (\<Sum>b<numAgeGroups.
        (1 - getNpiEffectiveness exampleExtern 0 (toInt (now travelSim)) 2 b)
          * transmittings travelSim 1 b
          * (R0 travelParameters / betaScale travelParameters) * RHO * contact ! 2 ! b * sigma ! 2
          / ageBasedFlowReductions ! b)
   \<and> 0 < (\<Sum>b<numAgeGroups.
        (1 - getNpiEffectiveness exampleExtern 1 (toInt (now travelSim)) 2 b)
          * transmittings travelSim 1 b
          * (R0 travelParameters / betaScale travelParameters) * RHO * contact ! 2 ! b * sigma ! 2
          / ageBasedFlowReductions ! 2)"
proof -
  have "numberOfInfectiousContactsJI exampleExtern travelParameters travelSim 0 1 2 = 0"
    unfolding numberOfInfectiousContactsJI_def foldl_add_sum by (simp add: travelSim_counts)
  moreover have "(\<Sum>b<numAgeGroups. (if b = 2 then 1 else 0) * c b) = c 2" for c :: "nat \<Rightarrow> real"
    by (simp add: numAgeGroups_def lessThan_nat_numeral lessThan_Suc)
  ultimately show ?thesis
    by (simp add: travelSim_counts numAgeGroups_def lessThan_nat_numeral lessThan_Suc
        exampleExtern_def travelParameters_def exampleParameters_def RHO_def contact_def sigma_def
        ageBasedFlowReductions_def)
qed


section \<open>The amount of antivirals a node uses\<close>









section \<open>A day on which nothing is due\<close>

lemma forEachOption_same: "(\<And>y. y \<in> set ys \<Longrightarrow> f y s = Some s) \<Longrightarrow> forEachOption f ys s = Some s"
  by (induction ys) simp_all

lemma eventLoop_empty: "scheduleEventQueues s nodeId = [] \<Longrightarrow> eventLoop x p nodeId s = Some s"
  by (subst eventLoop.simps) (simp add: queueTop_def)

lemma travelExpose_none:
  "variables s Susceptible (time s + 1) (nodeIdToIndex s n) (fst arv) (fst (snd arv)) (snd (snd arv)) = 0
     \<Longrightarrow> travelExpose x p n probs arv s = Some s"
  by (simp add: travelExpose_def Let_def toInt_def)

lemma travel_none:
  assumes "\<And>i a r v. variables s Susceptible (time s + 1) i a r v = 0"
  shows "travel x p s = Some s"
  unfolding travel_def
  by (rule forEachOption_same) (simp add: travelSink_def Let_def forEachOption_same travelExpose_none assms)

lemma recoveredSim_conserved: "conserved (variables recoveredSim) t i"
  by (simp add: conserved_def compartmentTotal_def populationTotal_def recoveredSim_def
      recoveredVariables_def sum3_add)

lemma recoveredSim_treatments:
  fixes s2 defines "s2 \<equiv> applyTreatments exampleParameters
      (EpidemicSimulation_simulate exampleExtern (recoveredSim\<lparr>now := real_of_int (time recoveredSim)\<rparr>))"
  shows "scheduleEventQueues s2 n = []" "nodeIds s2 = [0]" "variables s2 Susceptible t i a r v = 0"
    "time s2 = 2"
  unfolding s2_def
  by (simp_all add: applyTreatments_def Let_def applyAntiviralsToPriorityGroupSelections_def
      applyVaccinesToPriorityGroupSelections_def exampleParameters_def priorityGroupSelectionsAll_def
      EpidemicSimulation_simulate_def recoveredSim_def exampleSim_def resetDaily_def treatNode_def vaccinateNode_def
      exampleExtern_def recoveredVariables_def)

lemma recoveredSim_simulate:
  "\<exists>s'. simulate exampleExtern exampleParameters recoveredSim = Some s'"
proof -
  define s2 where "s2 = applyTreatments exampleParameters
      (EpidemicSimulation_simulate exampleExtern (recoveredSim\<lparr>now := real_of_int (time recoveredSim)\<rparr>))"
  note f = recoveredSim_treatments[folded s2_def]
  define s3 where "s3 = precompute s2 (time s2 + 1)"
  have e: "forEachOption (eventLoop exampleExtern exampleParameters) (nodeIds s3) s3 = Some s3"
    by (rule forEachOption_same) (simp add: eventLoop_empty s3_def precompute_def f)
  have t: "travel exampleExtern exampleParameters (s3\<lparr>now := real_of_int (time s3) + 1\<rparr>)
      = Some (s3\<lparr>now := real_of_int (time s3) + 1\<rparr>)"
    by (rule travel_none) (simp add: s3_def precompute_def f)
  show ?thesis
    unfolding simulate_def Let_def s2_def[symmetric] s3_def[symmetric]
    by (simp add: e t)
qed

text \<open>Without a stockpile at any node the treatments are the reset of the daily counters, and
  a day without stockpiles, schedules and susceptibles is completed.\<close>

lemma fold_same: "(\<And>y. y \<in> set ys \<Longrightarrow> f y s = s) \<Longrightarrow> fold f ys s = s"
  by (induction ys) simp_all

lemma applyAntivirals_no_stockpile:
  assumes "\<And>n. stockpileNetwork s n = None"
  shows "\<exists>l. applyAntiviralsToPriorityGroupSelections p sel0 s = s\<lparr>flog := l\<rparr>"
proof -
  have "fold (treatNode p g) ns s = s" for g ns
    by (rule fold_same) (simp add: treatNode_def assms)
  then have "applyAntiviralsToPriorityGroupSelections p sel0 s
      = s\<lparr>flog := flog (applyAntiviralsToPriorityGroupSelections p sel0 s)\<rparr>"
    by (cases sel0) (simp_all add: applyAntiviralsToPriorityGroupSelections_def)
  then show ?thesis by (rule exI)
qed

lemma applyVaccines_no_stockpile:
  assumes "\<And>n. stockpileNetwork s n = None"
  shows "\<exists>l. applyVaccinesToPriorityGroupSelections p sel0 s = s\<lparr>flog := l\<rparr>"
proof -
  have "fold (vaccinateNode p g) ns s = s" for g ns
    by (rule fold_same) (simp add: vaccinateNode_def assms)
  then have "applyVaccinesToPriorityGroupSelections p sel0 s
      = s\<lparr>flog := flog (applyVaccinesToPriorityGroupSelections p sel0 s)\<rparr>"
    by (cases sel0) (simp_all add: applyVaccinesToPriorityGroupSelections_def)
  then show ?thesis by (rule exI)
qed

lemma applyTreatments_no_stockpile:
  assumes "\<And>n. stockpileNetwork s n = None"
  shows "\<exists>l. applyTreatments p s = (resetDaily s)\<lparr>flog := l\<rparr>"
proof -
  have n: "stockpileNetwork ((resetDaily s)\<lparr>flog := l\<rparr>) n = None" for l n
    by (simp add: resetDaily_def assms)
  from applyAntivirals_no_stockpile[of "resetDaily s" p "antiviralPriorityGroupSelections p"] n[of "flog (resetDaily s)"]
  obtain l1 where 1: "applyAntiviralsToPriorityGroupSelections p (antiviralPriorityGroupSelections p) (resetDaily s)
      = (resetDaily s)\<lparr>flog := l1\<rparr>" by auto
  from applyAntivirals_no_stockpile[of "(resetDaily s)\<lparr>flog := l1\<rparr>" p "Some priorityGroupSelectionsAll"] n
  obtain l2 where 2: "applyAntiviralsToPriorityGroupSelections p (Some priorityGroupSelectionsAll) ((resetDaily s)\<lparr>flog := l1\<rparr>)
      = (resetDaily s)\<lparr>flog := l2\<rparr>" by auto
  from applyVaccines_no_stockpile[of "(resetDaily s)\<lparr>flog := l2\<rparr>" p "vaccinePriorityGroupSelections p"] n
  obtain l3 where 3: "applyVaccinesToPriorityGroupSelections p (vaccinePriorityGroupSelections p) ((resetDaily s)\<lparr>flog := l2\<rparr>)
      = (resetDaily s)\<lparr>flog := l3\<rparr>" by auto
  from applyVaccines_no_stockpile[of "(resetDaily s)\<lparr>flog := l3\<rparr>" p "Some priorityGroupSelectionsAll"] n
  obtain l4 where 4: "applyVaccinesToPriorityGroupSelections p (Some priorityGroupSelectionsAll) ((resetDaily s)\<lparr>flog := l3\<rparr>)
      = (resetDaily s)\<lparr>flog := l4\<rparr>" by auto
  show ?thesis
    unfolding applyTreatments_def Let_def 1 2 3 4 by blast
qed

lemma simulate_quiet:
  assumes st: "\<And>n. evolveStockpiles x (time s) (stockpileNetwork s) n = None"
    and q: "\<And>n. scheduleEventQueues s n = []"
    and su: "\<And>i a r v. variables s Susceptible (time s) i a r v = 0"
  shows "\<exists>s'. simulate x p s = Some s'"
proof -
  define s1 where "s1 = EpidemicSimulation_simulate x (s\<lparr>now := real_of_int (time s)\<rparr>)"
  have "stockpileNetwork s1 n = None" for n
    by (simp add: s1_def EpidemicSimulation_simulate_def st)
  from applyTreatments_no_stockpile[OF this]
  obtain l where s2: "applyTreatments p s1 = (resetDaily s1)\<lparr>flog := l\<rparr>" by blast
  define s3 where "s3 = precompute (applyTreatments p s1) (time (applyTreatments p s1) + 1)"
  have f: "scheduleEventQueues s3 n = []" "time s3 = time s"
    "variables s3 Susceptible (time s + 1) i a r v = 0" for n i a r v
    unfolding s3_def s2
    by (simp_all add: precompute_def resetDaily_def s1_def EpidemicSimulation_simulate_def q su)
  have e: "forEachOption (eventLoop x p) (nodeIds s3) s3 = Some s3"
    by (rule forEachOption_same) (simp add: eventLoop_empty f)
  have t: "travel x p (s3\<lparr>now := real_of_int (time s3) + 1\<rparr>)
      = Some (s3\<lparr>now := real_of_int (time s3) + 1\<rparr>)"
    by (rule travel_none) (simp add: f)
  show ?thesis
    unfolding simulate_def Let_def s1_def[symmetric] s3_def[symmetric]
    by (simp add: e t)
qed


section \<open>Conservation of the population\<close>

text \<open>
  Claim C1. At every time and node, the susceptible, exposed, asymptomatic, treatable,
  infectious, recovered and deceased, summed over all strata, are the population of the
  node. Every operation preserves this: the processing of an event, an exposure, the
  antiviral treatment and the vaccination leave the invariant at every time and node as
  it was, the vaccination by moving the vaccinated of a compartment from the stratum
  \<open>(a, r, 0)\<close> to the stratum \<open>(a, r, 1)\<close> and the population with them; and a daily step that
  starts from a state in which the invariant holds everywhere ends in one.
\<close>

theorem conservation_preserved:
  "(\<forall>s' b. processEvent x p nodeId event s = Some (s', b) \<longrightarrow>
       conserved (variables s') t i = conserved (variables s) t i)
   \<and> (\<forall>s' n. expose x p s num nodeId sv = Some (s', n) \<longrightarrow>
       conserved (variables s') t i = conserved (variables s) t i)
   \<and> conserved (variables (applyAntiviralsToPriorityGroupSelections p sel0 s)) t i
       = conserved (variables s) t i
   \<and> conserved (variables (applyVaccinesToPriorityGroupSelections p sel0 s)) t i
       = conserved (variables s) t i
   \<and> variables (fst (vaccinateStratum p nodeId tot used (c, sv) (s, loc))) =
       (if toFloat (getValue s Population (time s + 1) nodeId [sv ! 0, sv ! 1, 0]) \<le> 0
           \<or> numberVaccinatedOf p s nodeId tot used c sv \<le> 0
        then variables s
        else
          (let tt = time s + 1; j = nodeIdToIndex s nodeId;
               a = nat (sv ! 0); r = nat (sv ! 1);
               nV = real_of_int (numberVaccinatedOf p s nodeId tot used c sv)
           in addTo (addTo (addTo (addTo (addTo (variables s) (compartments ! c) tt j a r 0 (- nV))
                       (compartments ! c) tt j a r 1 nV)
                       Population tt j a r 0 (- nV))
                       Population tt j a r 1 nV)
                VaccinatedDaily tt j a r 1 nV))
   \<and> (\<forall>s'. simulate x p s = Some s' \<longrightarrow> (\<forall>t i. conserved (variables s) t i) \<longrightarrow>
         (\<forall>t i. conserved (variables s') t i))"
  using processEvent_movesOnly[of x p nodeId event s] expose_movesOnly[of x p s num nodeId sv]
    applyAntivirals_conserved[of p sel0 s t i] applyVaccines_conserved[of p sel0 s t i]
    vaccinateStratum_variables[of p nodeId tot used c sv s loc]
    simulate_conserved[of x p s]
  by (auto simp: movesOnly_conserved)

text \<open>A node with ten recovered individuals: a daily step, the transition of an event, and
  an exposure at the node with ten susceptibles.\<close>

theorem conservation_preserved_witness:
  "(\<forall>t i. conserved (variables recoveredSim) t i)
   \<and> (\<exists>s'. simulate exampleExtern exampleParameters recoveredSim = Some s'
          \<and> (\<forall>t i. conserved (variables s') t i))
   \<and> (\<exists>s'. processEvent exampleExtern exampleParameters 0 transitionEvent recoveredSim = Some (s', True)
          \<and> conserved (variables s') 3 0)
   \<and> (\<exists>s'. expose exampleExtern exampleParameters contactSim 1 0 [0, 0, 0] = Some (s', 1)
          \<and> conserved (variables s') 3 0 = conserved (variables contactSim) 3 0)"
proof -
  obtain s' where s': "simulate exampleExtern exampleParameters recoveredSim = Some s'"
    using recoveredSim_simulate by blast
  have pe: "\<exists>s'. processEvent exampleExtern exampleParameters 0 transitionEvent recoveredSim = Some (s', True)"
    by (simp add: processEvent_def transitionEvent_def)
  have ex: "\<exists>s'. expose exampleExtern exampleParameters contactSim 1 0 [0, 0, 0] = Some (s', 1)"
    by (simp add: expose_def exposeEntry_def contactSim_def exampleSim_def EpidemicSimulation_expose_def
        transition_def moved_def Let_def contactVariables_def toInt_def initializeContactEvents_def
        example_contact_events numAgeGroups_def numRiskGroups_def numVaccinatedGroups_def
        example_newSchedule)
  note r = conservation_preserved[where x = exampleExtern and p = exampleParameters and nodeId = 0
      and event = transitionEvent and s = recoveredSim and t = 3 and i = 0]
  note c = conservation_preserved[where x = exampleExtern and p = exampleParameters and nodeId = 0
      and s = contactSim and t = 3 and i = 0 and num = 1 and sv = "[0, 0, 0]"]
  have all: "\<forall>t i. conserved (variables recoveredSim) t i"
    by (simp add: recoveredSim_conserved)
  from r[THEN conjunct2, THEN conjunct2, THEN conjunct2, THEN conjunct2, THEN conjunct2] s' all
  have 1: "\<exists>s'. simulate exampleExtern exampleParameters recoveredSim = Some s'
          \<and> (\<forall>t i. conserved (variables s') t i)"
    by blast
  from r[THEN conjunct1] pe all
  have 2: "\<exists>s'. processEvent exampleExtern exampleParameters 0 transitionEvent recoveredSim = Some (s', True)
          \<and> conserved (variables s') 3 0"
    by blast
  from c[THEN conjunct2, THEN conjunct1] ex
  have 3: "\<exists>s'. expose exampleExtern exampleParameters contactSim 1 0 [0, 0, 0] = Some (s', 1)
          \<and> conserved (variables s') 3 0 = conserved (variables contactSim) 3 0"
    by blast
  from all 1 2 3 show ?thesis
    by blast
qed

section \<open>The daily counters\<close>

lemma isDaily_not_compartment: "isDaily var \<Longrightarrow> \<not> isCompartment var"
  by (auto simp: isDaily_def isCompartment_def)

lemma resetDaily_zero: "isDaily var \<Longrightarrow> variables (resetDaily s) var (time s + 1) i a r v = 0"
  by (simp add: resetDaily_def isDaily_def)

lemma resetDaily_others:
  "\<not> isDaily var \<or> t \<noteq> time s + 1 \<Longrightarrow> variables (resetDaily s) var t = variables s var t"
  by (auto simp: resetDaily_def isDaily_def)

lemma simulate_daily:
  assumes "simulate x p s = Some s'" and d: "isDaily var"
  shows "variables s' var t =
           (if t = time s + 1
            then variables (applyTreatments p (EpidemicSimulation_simulate x (s\<lparr>now := real_of_int (time s)\<rparr>))) var t
            else variables s var t)"
proof -
  from assms(1) obtain s1 s2 s4 s5 where
    s1: "s1 = EpidemicSimulation_simulate x (s\<lparr>now := real_of_int (time s)\<rparr>)" and
    s2: "s2 = applyTreatments p s1" and
    s4: "forEachOption (eventLoop x p) (nodeIds s2) (precompute s2 (time s2 + 1)) = Some s4" and
    s5: "travel x p (s4\<lparr>now := real_of_int (time s4) + 1\<rparr>) = Some s5" and
    s': "variables s' = variables s5"
    by (rule simulate_parts)
  have t1: "time s1 = time s" by (simp add: s1 EpidemicSimulation_simulate_def)
  have "movesOnly (precompute s2 (time s2 + 1)) s4"
    using eventLoops_movesOnly[OF s4] by simp
  then have "moveSteps (time s2 + 1) (variables s2) (variables s4)"
    by (simp add: movesOnly_def precompute_def)
  from moveSteps_others[OF this isDaily_not_compartment[OF d]]
  have 4: "variables s4 var = variables s2 var" .
  have "moveSteps (time s4 + 1) (variables s4) (variables s5)"
    using travel_movesOnly[OF s5] by (simp add: movesOnly_def)
  from moveSteps_others[OF this isDaily_not_compartment[OF d]]
  have 5: "variables s5 var = variables s4 var" .
  have eq: "variables s' var = variables s2 var"
    by (simp add: s' 4 5)
  show ?thesis
  proof (cases "t = time s + 1")
    case True
    then show ?thesis by (simp add: eq s2 s1)
  next
    case False
    have "storeSteps (time (resetDaily s1) + 1) (variables (resetDaily s1)) (variables s2)"
      using applyTreatments_treatsOnly[of s1 p] by (simp add: treatsOnly_def s2)
    from storeSteps_other_time[OF this, of t var] False
    have "variables s2 var t = variables (resetDaily s1) var t"
      by (simp add: resetDaily_fields t1)
    also have "\<dots> = variables s1 var t"
      using False by (simp add: resetDaily_others t1)
    also have "\<dots> = variables s var t"
      using False by (simp add: s1 EpidemicSimulation_simulate_def)
    finally show ?thesis using False by (simp add: eq)
  qed
qed

lemma simulate_daily_no_stockpile:
  assumes "simulate x p s = Some s'" and d: "isDaily var"
    and st: "\<And>n. evolveStockpiles x (time s) (stockpileNetwork s) n = None"
  shows "variables s' var (time s + 1) i a r v = 0"
proof -
  define s1 where "s1 = EpidemicSimulation_simulate x (s\<lparr>now := real_of_int (time s)\<rparr>)"
  have t1: "time s1 = time s" by (simp add: s1_def EpidemicSimulation_simulate_def)
  have "stockpileNetwork s1 n = None" for n
    by (simp add: s1_def EpidemicSimulation_simulate_def st)
  from applyTreatments_no_stockpile[OF this]
  obtain l where s2: "applyTreatments p s1 = (resetDaily s1)\<lparr>flog := l\<rparr>" by blast
  from simulate_daily[OF assms(1) d, of "time s + 1"]
  have "variables s' var (time s + 1) = variables (resetDaily s1) var (time s1 + 1)"
    by (simp add: s1_def[symmetric] s2 t1)
  then show ?thesis
    by (simp add: resetDaily_zero[OF d])
qed


text \<open>
  Claim C10. The daily step resets the counters of the day before it applies a treatment:
  the reset sets the treated, the ineffectively treated and the vaccinated of the day to
  zero at \<open>time + 1\<close> for every node and stratum and changes nothing else, and the four
  treatment passes, those of the selections and those of the whole population, start from
  the reset state, so that their result does not depend on what the counters held
  before. When the daily step returns, a counter at \<open>time + 1\<close> holds what the passes of
  that day have left there, events and travel do not touch it, and the counters of all
  other days are as they were; on a day without a stockpile at any node the counters of
  the day are zero.
\<close>

theorem daily_counters_reset:
  "(\<forall>var i a r v. isDaily var \<longrightarrow> variables (resetDaily s) var (time s + 1) i a r v = 0)
   \<and> (\<forall>var t. \<not> isDaily var \<or> t \<noteq> time s + 1 \<longrightarrow> variables (resetDaily s) var t = variables s var t)
   \<and> applyTreatments p s =
       applyVaccinesToPriorityGroupSelections p (Some priorityGroupSelectionsAll)
         (applyVaccinesToPriorityGroupSelections p (vaccinePriorityGroupSelections p)
            (applyAntiviralsToPriorityGroupSelections p (Some priorityGroupSelectionsAll)
               (applyAntiviralsToPriorityGroupSelections p (antiviralPriorityGroupSelections p)
                  (resetDaily s))))
   \<and> (\<forall>s0. resetDaily s0 = resetDaily s \<longrightarrow> applyTreatments p s0 = applyTreatments p s)
   \<and> (\<forall>s'. simulate x p s = Some s' \<longrightarrow>
         (\<forall>var t. isDaily var \<longrightarrow>
            variables s' var t =
              (if t = time s + 1
               then variables (applyTreatments p
                      (EpidemicSimulation_simulate x (s\<lparr>now := real_of_int (time s)\<rparr>))) var t
               else variables s var t)))
   \<and> (\<forall>s'. simulate x p s = Some s' \<longrightarrow>
         (\<forall>n. evolveStockpiles x (time s) (stockpileNetwork s) n = None) \<longrightarrow>
         (\<forall>var i a r v. isDaily var \<longrightarrow> variables s' var (time s + 1) i a r v = 0))"
proof -
  have 1: "\<forall>var i a r v. isDaily var \<longrightarrow> variables (resetDaily s) var (time s + 1) i a r v = 0"
    by (simp add: resetDaily_zero)
  have 2: "\<forall>var t. \<not> isDaily var \<or> t \<noteq> time s + 1 \<longrightarrow> variables (resetDaily s) var t = variables s var t"
    using resetDaily_others[of _ _ s] by blast
  have 3: "applyTreatments p s =
       applyVaccinesToPriorityGroupSelections p (Some priorityGroupSelectionsAll)
         (applyVaccinesToPriorityGroupSelections p (vaccinePriorityGroupSelections p)
            (applyAntiviralsToPriorityGroupSelections p (Some priorityGroupSelectionsAll)
               (applyAntiviralsToPriorityGroupSelections p (antiviralPriorityGroupSelections p)
                  (resetDaily s))))"
    by (simp add: applyTreatments_def Let_def)
  have 4: "\<forall>s0. resetDaily s0 = resetDaily s \<longrightarrow> applyTreatments p s0 = applyTreatments p s"
    by (simp add: applyTreatments_def Let_def)
  have 5: "\<forall>s'. simulate x p s = Some s' \<longrightarrow>
         (\<forall>var t. isDaily var \<longrightarrow>
            variables s' var t =
              (if t = time s + 1
               then variables (applyTreatments p
                      (EpidemicSimulation_simulate x (s\<lparr>now := real_of_int (time s)\<rparr>))) var t
               else variables s var t))"
    using simulate_daily[of x p s] by blast
  have 6: "\<forall>s'. simulate x p s = Some s' \<longrightarrow>
         (\<forall>n. evolveStockpiles x (time s) (stockpileNetwork s) n = None) \<longrightarrow>
         (\<forall>var i a r v. isDaily var \<longrightarrow> variables s' var (time s + 1) i a r v = 0)"
    using simulate_daily_no_stockpile[of x p s] by blast
  from 1 2 3 4 5 6 show ?thesis by (intro conjI)
qed

text \<open>A node with two vaccinated on day 2 and no stockpile: the base step copies the count
  to day 3, and after the daily step it is zero on day 3 and still two on day 2.\<close>

theorem daily_counters_reset_witness:
  "variables exampleSim VaccinatedDaily 2 0 0 0 1 = 2
   \<and> variables (EpidemicSimulation_simulate exampleExtern (exampleSim\<lparr>now := real_of_int (time exampleSim)\<rparr>))
        VaccinatedDaily 3 0 0 0 1 = 2
   \<and> (\<exists>s'. simulate exampleExtern exampleParameters exampleSim = Some s'
          \<and> variables s' VaccinatedDaily 3 0 0 0 1 = 0
          \<and> variables s' VaccinatedDaily 2 0 0 0 1 = 2)"
proof -
  have a: "variables exampleSim VaccinatedDaily 2 0 0 0 1 = 2"
    by (simp add: exampleSim_def exampleVariables_def)
  have b: "variables (EpidemicSimulation_simulate exampleExtern (exampleSim\<lparr>now := real_of_int (time exampleSim)\<rparr>))
        VaccinatedDaily 3 0 0 0 1 = 2"
    by (simp add: EpidemicSimulation_simulate_def exampleSim_def exampleVariables_def)
  have t: "time exampleSim + 1 = 3" by (simp add: exampleSim_def)
  have d: "isDaily VaccinatedDaily" by (simp add: isDaily_def)
  have st: "\<forall>n. evolveStockpiles exampleExtern (time exampleSim) (stockpileNetwork exampleSim) n = None"
    by (simp add: exampleExtern_def exampleSim_def)
  obtain s' where s': "simulate exampleExtern exampleParameters exampleSim = Some s'"
    using simulate_quiet[of exampleExtern exampleSim exampleParameters]
    by (auto simp: exampleExtern_def exampleSim_def exampleVariables_def)
  note w = daily_counters_reset[of exampleSim exampleParameters exampleExtern]
  from w[THEN conjunct2, THEN conjunct2, THEN conjunct2, THEN conjunct2, THEN conjunct2] s' st d
  have z: "variables s' VaccinatedDaily 3 0 0 0 1 = 0"
    unfolding t by blast
  from w[THEN conjunct2, THEN conjunct2, THEN conjunct2, THEN conjunct2, THEN conjunct1] s' d
  have "variables s' VaccinatedDaily 2 =
          (if (2 :: int) = time exampleSim + 1
           then variables (applyTreatments exampleParameters
                  (EpidemicSimulation_simulate exampleExtern (exampleSim\<lparr>now := real_of_int (time exampleSim)\<rparr>)))
                  VaccinatedDaily 2
           else variables exampleSim VaccinatedDaily 2)"
    by blast
  then have "variables s' VaccinatedDaily 2 = variables exampleSim VaccinatedDaily 2"
    by (simp add: t)
  with a have k: "variables s' VaccinatedDaily 2 0 0 0 1 = 2"
    by (simp only:)
  from a b s' z k show ?thesis by blast
qed

section \<open>Recovered and deceased over time\<close>
























end
